theory Spec2Isabelle
  imports Main "HOL-Library.Char_ord" "HOL-Library.List_Lexorder" "HOL-Library.Product_Lexorder"
begin

section \<open>Data model\<close>

text \<open>
  The backend of the appointment application: the appointment and user schemas, the saving of
  an appointment with its validation and its pre-save hook, the controllers of the
  appointment routes and the user status route, and the middleware in front of them. The
  document store is a record of two lists.

  Object ids are natural numbers (every id a request gives is well formed), instants are
  milliseconds since the epoch (the value of a JavaScript \<open>Date\<close>). A request is evaluated at
  one instant \<open>now\<close>: every \<open>new Date()\<close> of a request reads the same clock value. The
  server's local time zone is UTC. Strings are ASCII.
\<close>

type_synonym objectId = nat
type_synonym instant = int

datatype role = Patient | Doctor | Admin

text \<open>The user schema (models/User.js) without the password, which no function below reads.\<close>

record user =
  u_id :: objectId
  u_name :: string
  u_email :: string
  u_role :: role
  u_phone :: "string option"
  u_specialization :: "string option"
  u_isActive :: bool
  u_createdAt :: instant

text \<open>The appointment schema; \<open>createdAt\<close> and \<open>updatedAt\<close> come from \<open>timestamps: true\<close>.\<close>

record appointment =
  aid :: objectId
  patientId :: objectId
  doctorId :: objectId
  date :: instant
  time :: string
  status :: string
  notes' :: "string option"
  symptoms :: "string option"
  duration :: int
  isUrgent :: bool
  createdAt :: instant
  updatedAt :: instant

record db =
  users :: "user list"
  appointments :: "appointment list"

section \<open>Schema validation\<close>

definition isDigit :: "char \<Rightarrow> bool" where
  "isDigit c = (c \<in> set ''0123456789'')"

text \<open>The \<open>match\<close> pattern of \<open>time\<close>: \<open>^([0-1]?[0-9]|2[0-3]):[0-5][0-9]$\<close>.\<close>

fun timeMatch :: "string \<Rightarrow> bool" where
  "timeMatch [h, c, m1, m2] =
     (isDigit h \<and> c = CHR '':'' \<and> m1 \<in> set ''012345'' \<and> isDigit m2)"
| "timeMatch [h1, h2, c, m1, m2] =
     (((h1 \<in> set ''01'' \<and> isDigit h2) \<or> (h1 = CHR ''2'' \<and> h2 \<in> set ''0123''))
      \<and> c = CHR '':'' \<and> m1 \<in> set ''012345'' \<and> isDigit m2)"
| "timeMatch _ = False"

definition statusEnum :: "string list" where
  "statusEnum = [''pending'', ''confirmed'', ''cancelled'', ''completed'']"

definition isSpace :: "char \<Rightarrow> bool" where
  "isSpace c = (c \<in> set [CHR '' '', CHR 0x09, CHR 0x0A, CHR 0x0B, CHR 0x0C, CHR 0x0D])"

text \<open>The \<open>trim: true\<close> setter of \<open>notes\<close> and \<open>symptoms\<close> (ASCII white space).\<close>

definition trim :: "string \<Rightarrow> string" where
  "trim s = rev (dropWhile isSpace (rev (dropWhile isSpace s)))"

definition validateDate :: "instant \<Rightarrow> instant \<Rightarrow> string list" where
  "validateDate now v = (if v > now then [] else [''Appointment date cannot be in the past''])"

definition validateTime :: "string \<Rightarrow> string list" where
  "validateTime t =
     (if t = [] then [''Appointment time is required'']
      else if timeMatch t then []
      else [''Please enter a valid time in HH:MM format''])"

definition validateStatus :: "string \<Rightarrow> string list" where
  "validateStatus s =
     (if s \<in> set statusEnum then []
      else [''`'' @ s @ ''` is not a valid enum value for path `status`.''])"

definition validateMaxlength :: "nat \<Rightarrow> string \<Rightarrow> string option \<Rightarrow> string list" where
  "validateMaxlength n msg v =
     (case v of None \<Rightarrow> [] | Some s \<Rightarrow> if length s \<le> n then [] else [msg])"

definition validateDuration :: "int \<Rightarrow> string list" where
  "validateDuration d =
     (if d < 15 then [''Appointment duration must be at least 15 minutes'']
      else if d > 120 then [''Appointment duration cannot exceed 120 minutes'']
      else [])"

text \<open>
  The validators of every path but \<open>date\<close>, in the order of the schema. \<open>patientId\<close> and
  \<open>doctorId\<close> are always present in a record, so their \<open>required\<close> validators cannot fail.
\<close>

definition validateRest ::
  "string \<Rightarrow> string \<Rightarrow> string option \<Rightarrow> string option \<Rightarrow> int \<Rightarrow> string list" where
  "validateRest t s n sy d =
     validateTime t @ validateStatus s
     @ validateMaxlength 500 ''Notes cannot exceed 500 characters'' n
     @ validateMaxlength 300 ''Symptoms description cannot exceed 300 characters'' sy
     @ validateDuration d"

text \<open>
  Validation is the first pre-save step of a document and runs the validators of its paths on
  every save, of a new document and of a loaded one alike.
\<close>

definition validateSchema :: "instant \<Rightarrow> appointment \<Rightarrow> string list" where
  "validateSchema now a =
     validateDate now (date a)
     @ validateRest (time a) (status a) (notes' a) (symptoms a) (duration a)"

section \<open>Saving: validation, the conflict guard, persistence\<close>

datatype save_error = ValidationError "string list" | Error string

text \<open>\<open>appointmentSchema.pre('save')\<close>: the conflict guard.\<close>

definition preSave :: "appointment list \<Rightarrow> appointment \<Rightarrow> save_error + unit" where
  "preSave apps this =
     (case List.find (\<lambda>b. doctorId b = doctorId this \<and> date b = date this
                          \<and> time b = time this \<and> status b \<notin> set [''cancelled'']
                          \<and> aid b \<noteq> aid this) apps of
        Some existingAppointment \<Rightarrow> Inl (Error ''Appointment slot is already booked'')
      | None \<Rightarrow> Inr ())"

text \<open>
  \<open>document.save()\<close>: validation, then the pre-save hook, then the write. A new document is
  inserted with both timestamps; a loaded one replaces the stored document of its id, and
  \<open>updatedAt\<close> moves only when a path was modified. \<open>Inl\<close> is the rejected promise: nothing
  was written.
\<close>

definition save ::
  "instant \<Rightarrow> appointment list \<Rightarrow> bool \<Rightarrow> appointment
   \<Rightarrow> save_error + (appointment list \<times> appointment)" where
  "save now apps isNew this =
     (case validateSchema now this of
        e # es \<Rightarrow> Inl (ValidationError (e # es))
      | [] \<Rightarrow>
        (case preSave apps this of
           Inl err \<Rightarrow> Inl err
         | Inr _ \<Rightarrow>
           if isNew then
             (let d = this\<lparr>createdAt := now, updatedAt := now\<rparr> in Inr (apps @ [d], d))
           else
             (let d = (if List.find (\<lambda>b. aid b = aid this) apps = Some this then this
                       else this\<lparr>updatedAt := now\<rparr>)
              in Inr (map (\<lambda>b. if aid b = aid d then d else b) apps, d))))"

section \<open>The cancellation window\<close>

text \<open>
  \<open>parseInt\<close>: leading white space, an optional sign, then decimal digits, or hexadecimal
  digits after \<open>0x\<close>; \<open>None\<close> is \<open>NaN\<close>.
\<close>

definition digitVal :: "char \<Rightarrow> int" where
  "digitVal c =
     (if isDigit c then int (of_char c) - 48
      else if c \<in> set ''abcdef'' then int (of_char c) - 87
      else int (of_char c) - 55)"

fun digitsVal :: "int \<Rightarrow> int \<Rightarrow> string \<Rightarrow> int" where
  "digitsVal radix acc [] = acc"
| "digitsVal radix acc (c # cs) = digitsVal radix (acc * radix + digitVal c) cs"

definition isHexDigit :: "char \<Rightarrow> bool" where
  "isHexDigit c = (c \<in> set ''0123456789abcdefABCDEF'')"

definition parseDigits :: "string \<Rightarrow> int option" where
  "parseDigits u =
     (case u of
        a # b # r \<Rightarrow>
          if a = CHR ''0'' \<and> (b = CHR ''x'' \<or> b = CHR ''X'') then
            (if takeWhile isHexDigit r = [] then None
             else Some (digitsVal 16 0 (takeWhile isHexDigit r)))
          else if takeWhile isDigit u = [] then None
          else Some (digitsVal 10 0 (takeWhile isDigit u))
      | _ \<Rightarrow>
          if takeWhile isDigit u = [] then None
          else Some (digitsVal 10 0 (takeWhile isDigit u)))"

definition parseInt :: "string \<Rightarrow> int option" where
  "parseInt s =
     (case dropWhile isSpace s of
        [] \<Rightarrow> None
      | c # r \<Rightarrow>
          if c = CHR ''-'' then map_option uminus (parseDigits r)
          else if c = CHR ''+'' then parseDigits r
          else parseDigits (c # r))"

text \<open>\<open>s.split(':')\<close>.\<close>

fun splitColon :: "string \<Rightarrow> string list" where
  "splitColon [] = [[]]"
| "splitColon (c # cs) =
     (if c = CHR '':'' then [] # splitColon cs
      else (case splitColon cs of p # ps \<Rightarrow> (c # p) # ps | [] \<Rightarrow> [[c]]))"

text \<open>Indexing an array: out of range gives \<open>undefined\<close>, and \<open>parseInt(undefined)\<close> is \<open>NaN\<close>.\<close>

definition parseIntAt :: "string list \<Rightarrow> nat \<Rightarrow> int option" where
  "parseIntAt xs i = (if i < length xs then parseInt (xs ! i) else None)"

text \<open>\<open>Date.setHours\<close> and \<open>Date.setMinutes\<close> with one argument, in UTC.\<close>

definition setHours :: "instant \<Rightarrow> int \<Rightarrow> instant" where
  "setHours d h = d - ((d mod 86400000) div 3600000) * 3600000 + h * 3600000"

definition setMinutes :: "instant \<Rightarrow> int \<Rightarrow> instant" where
  "setMinutes d m = d - ((d mod 3600000) div 60000) * 60000 + m * 60000"

text \<open>
  The \<open>appointmentDateTime\<close> of \<open>canBeCancelled\<close>: the date with its hours and minutes
  replaced by those of \<open>time\<close>; \<open>None\<close> is the invalid date that a \<open>NaN\<close> argument leaves.
\<close>

definition appointmentDateTime :: "appointment \<Rightarrow> instant option" where
  "appointmentDateTime this =
     (case parseIntAt (splitColon (time this)) 0 of
        None \<Rightarrow> None
      | Some h \<Rightarrow>
          (case parseIntAt (splitColon (time this)) 1 of
             None \<Rightarrow> None
           | Some m \<Rightarrow> Some (setMinutes (setHours (date this) h) m)))"

definition canBeCancelled :: "instant \<Rightarrow> appointment \<Rightarrow> bool" where
  "canBeCancelled now this =
     (case appointmentDateTime this of
        None \<Rightarrow> False
      | Some t \<Rightarrow> t > now + 2 * 60 * 60 * 1000)"

section \<open>Responses\<close>

text \<open>A populated user reference: the selected fields, or nothing when the user is gone.\<close>

record user_ref =
  r_id :: objectId
  r_name :: string
  r_email :: string
  r_phone :: "string option"
  r_specialization :: "string option"

definition populate :: "user list \<Rightarrow> bool \<Rightarrow> objectId \<Rightarrow> user_ref option" where
  "populate us withSpecialization i =
     map_option (\<lambda>u. \<lparr>r_id = u_id u, r_name = u_name u, r_email = u_email u,
                       r_phone = u_phone u,
                       r_specialization = (if withSpecialization then u_specialization u else None)\<rparr>)
       (List.find (\<lambda>u. u_id u = i) us)"

text \<open>\<open>getDisplayDetails()\<close> together with the populated \<open>patient\<close> and \<open>doctor\<close>.\<close>

record display =
  d_id :: objectId
  d_date :: instant
  d_time :: string
  d_status :: string
  d_notes :: "string option"
  d_symptoms :: "string option"
  d_duration :: int
  d_isUrgent :: bool
  d_createdAt :: instant
  d_canBeCancelled :: bool
  d_patient :: "user_ref option"
  d_doctor :: "user_ref option"

definition getDisplayDetails :: "instant \<Rightarrow> user list \<Rightarrow> appointment \<Rightarrow> display" where
  "getDisplayDetails now us this =
     \<lparr>d_id = aid this, d_date = date this, d_time = time this, d_status = status this,
      d_notes = notes' this, d_symptoms = symptoms this, d_duration = duration this,
      d_isUrgent = isUrgent this, d_createdAt = createdAt this,
      d_canBeCancelled = canBeCancelled now this,
      d_patient = populate us False (patientId this),
      d_doctor = populate us True (doctorId this)\<rparr>"

record pagination =
  currentPage :: "int option"
  totalPages :: "int option"
  totalAppointments :: nat
  hasNextPage :: bool
  hasPrevPage :: bool

datatype payload =
  NoPayload
| OneAppointment display
| ManyAppointments "display list" pagination
| Profile user

text \<open>
  \<open>Failure code message errors\<close> is \<open>{status: 'error', message, errors}\<close>; \<open>Success code
  message data\<close> is \<open>{status: 'success', message, data}\<close>.
\<close>

datatype response =
  Failure nat string "string list"
| Success nat "string option" payload

section \<open>Creating an appointment\<close>

text \<open>
  A date of the request body: absent or falsy, a value that \<open>new Date\<close> cannot read
  (\<open>Invalid Date\<close>), or the instant that \<open>new Date\<close> makes of it.
\<close>

datatype js_date = NoDate | InvalidDate | ValidDate instant

text \<open>
  The body of \<open>POST /appointments\<close>. \<open>None\<close> is an absent field; a duration is an
  integer number of minutes.
\<close>

record create_body =
  b_doctorId :: "objectId option"
  b_date :: js_date
  b_time :: "string option"
  b_notes :: "string option"
  b_symptoms :: "string option"
  b_duration :: "int option"
  b_isUrgent :: "bool option"

definition falsy :: "string option \<Rightarrow> bool" where
  "falsy v = (v = None \<or> v = Some [])"

text \<open>The id of a new document: one that no stored appointment has.\<close>

fun freshId :: "appointment list \<Rightarrow> objectId" where
  "freshId [] = 0"
| "freshId (a # as) = max (Suc (aid a)) (freshId as)"

text \<open>\<open>duration || 30\<close>: an absent duration and the falsy \<open>0\<close> both give 30.\<close>

definition durationOrDefault :: "int option \<Rightarrow> int" where
  "durationOrDefault v = (case v of None \<Rightarrow> 30 | Some n \<Rightarrow> if n = 0 then 30 else n)"

definition newAppointment ::
  "instant \<Rightarrow> appointment list \<Rightarrow> objectId \<Rightarrow> objectId \<Rightarrow> instant \<Rightarrow> create_body
   \<Rightarrow> appointment" where
  "newAppointment now apps patient doctor appointmentDate body =
     \<lparr>aid = freshId apps, patientId = patient, doctorId = doctor, date = appointmentDate,
      time = the (b_time body), status = ''pending'',
      notes' = map_option trim (b_notes body),
      symptoms = map_option trim (b_symptoms body),
      duration = durationOrDefault (b_duration body),
      isUrgent = (case b_isUrgent body of None \<Rightarrow> False | Some u \<Rightarrow> u),
      createdAt = now, updatedAt = now\<rparr>"

text \<open>
  \<open>createAppointment\<close>. An invalid date is not in the past (the comparison is false), so the
  document is built and its save fails validation with the cast error of \<open>date\<close>, written
  here as "Cast to date failed", next to whatever the other paths report.
\<close>

definition createAppointment :: "instant \<Rightarrow> db \<Rightarrow> user \<Rightarrow> create_body \<Rightarrow> db \<times> response" where
  "createAppointment now st reqUser body =
     (if b_doctorId body = None \<or> b_date body = NoDate \<or> falsy (b_time body) then
        (st, Failure 400 ''Doctor ID, date, and time are required'' [])
      else
        (case List.find (\<lambda>u. u_id u = the (b_doctorId body) \<and> u_role u = Doctor \<and> u_isActive u)
                (users st) of
           None \<Rightarrow> (st, Failure 404 ''Doctor not found or inactive'' [])
         | Some doctor \<Rightarrow>
             (case b_date body of
                ValidDate appointmentDate \<Rightarrow>
                  if appointmentDate \<le> now then
                    (st, Failure 400 ''Appointment date cannot be in the past'' [])
                  else
                    (case save now (appointments st) True
                            (newAppointment now (appointments st) (u_id reqUser)
                               (the (b_doctorId body)) appointmentDate body) of
                       Inl (Error m) \<Rightarrow>
                         if m = ''Appointment slot is already booked'' then (st, Failure 400 m [])
                         else (st, Failure 500 ''Failed to create appointment'' [])
                     | Inl (ValidationError errs) \<Rightarrow> (st, Failure 400 ''Validation failed'' errs)
                     | Inr (apps', d) \<Rightarrow>
                         (st\<lparr>appointments := apps'\<rparr>,
                          Success 201 (Some ''Appointment created successfully'')
                            (OneAppointment (getDisplayDetails now (users st) d))))
              | _ \<Rightarrow>
                  (st, Failure 400 ''Validation failed''
                         (''Cast to date failed'' #
                          validateRest (the (b_time body)) ''pending''
                            (map_option trim (b_notes body)) (map_option trim (b_symptoms body))
                            (durationOrDefault (b_duration body)))))))"

section \<open>Status update and cancellation\<close>

definition updateAppointmentStatus ::
  "instant \<Rightarrow> db \<Rightarrow> user \<Rightarrow> objectId \<Rightarrow> string \<Rightarrow> db \<times> response" where
  "updateAppointmentStatus now st reqUser appointmentId status' =
     (if status' \<notin> set statusEnum then (st, Failure 400 ''Invalid status value'' [])
      else
        (case List.find (\<lambda>a. aid a = appointmentId) (appointments st) of
           None \<Rightarrow> (st, Failure 404 ''Appointment not found'' [])
         | Some appointment \<Rightarrow>
             if u_role reqUser = Patient \<and> patientId appointment \<noteq> u_id reqUser then
               (st, Failure 403 ''Access denied'' [])
             else if u_role reqUser = Doctor \<and> doctorId appointment \<noteq> u_id reqUser then
               (st, Failure 403 ''Access denied'' [])
             else
               (case save now (appointments st) False (appointment\<lparr>status := status'\<rparr>) of
                  Inl err \<Rightarrow> (st, Failure 500 ''Failed to update appointment status'' [])
                | Inr (apps', d) \<Rightarrow>
                    (st\<lparr>appointments := apps'\<rparr>,
                     Success 200 (Some ''Appointment status updated successfully'')
                       (OneAppointment (getDisplayDetails now (users st) d))))))"

definition cancelAppointment :: "instant \<Rightarrow> db \<Rightarrow> user \<Rightarrow> objectId \<Rightarrow> db \<times> response" where
  "cancelAppointment now st reqUser appointmentId =
     (case List.find (\<lambda>a. aid a = appointmentId) (appointments st) of
        None \<Rightarrow> (st, Failure 404 ''Appointment not found'' [])
      | Some appointment \<Rightarrow>
          if u_role reqUser = Patient \<and> patientId appointment \<noteq> u_id reqUser then
            (st, Failure 403 ''Access denied'' [])
          else if u_role reqUser = Doctor \<and> doctorId appointment \<noteq> u_id reqUser then
            (st, Failure 403 ''Access denied'' [])
          else if \<not> canBeCancelled now appointment then
            (st, Failure 400 ''Appointment cannot be cancelled (less than 2 hours away)'' [])
          else
            (case save now (appointments st) False (appointment\<lparr>status := ''cancelled''\<rparr>) of
               Inl err \<Rightarrow> (st, Failure 500 ''Failed to cancel appointment'' [])
             | Inr (apps', d) \<Rightarrow>
                 (st\<lparr>appointments := apps'\<rparr>,
                  Success 200 (Some ''Appointment cancelled successfully'') NoPayload)))"

section \<open>Reading appointments\<close>

text \<open>A query filter: an absent field constrains nothing; \<open>f_date\<close> is \<open>{$gte, $lt}\<close>.\<close>

record query_filter =
  f_id :: "objectId option"
  f_patientId :: "objectId option"
  f_doctorId :: "objectId option"
  f_status :: "string option"
  f_date :: "(instant \<times> instant) option"

definition matches :: "query_filter \<Rightarrow> appointment \<Rightarrow> bool" where
  "matches f a =
     ((case f_id f of None \<Rightarrow> True | Some i \<Rightarrow> aid a = i)
      \<and> (case f_patientId f of None \<Rightarrow> True | Some i \<Rightarrow> patientId a = i)
      \<and> (case f_doctorId f of None \<Rightarrow> True | Some i \<Rightarrow> doctorId a = i)
      \<and> (case f_status f of None \<Rightarrow> True | Some s \<Rightarrow> status a = s)
      \<and> (case f_date f of None \<Rightarrow> True | Some (lo, hi) \<Rightarrow> lo \<le> date a \<and> date a < hi))"

text \<open>The filter that the caller's role puts on every read.\<close>

definition roleFilter :: "user \<Rightarrow> query_filter" where
  "roleFilter reqUser =
     \<lparr>f_id = None,
      f_patientId = (if u_role reqUser = Patient then Some (u_id reqUser) else None),
      f_doctorId = (if u_role reqUser = Patient then None
                    else if u_role reqUser = Doctor then Some (u_id reqUser) else None),
      f_status = None, f_date = None\<rparr>"

definition getAppointmentById :: "instant \<Rightarrow> db \<Rightarrow> user \<Rightarrow> objectId \<Rightarrow> response" where
  "getAppointmentById now st reqUser appointmentId =
     (case List.find (matches ((roleFilter reqUser)\<lparr>f_id := Some appointmentId\<rparr>))
             (appointments st) of
        None \<Rightarrow> Failure 404 ''Appointment not found'' []
      | Some appointment \<Rightarrow>
          Success 200 None (OneAppointment (getDisplayDetails now (users st) appointment)))"

text \<open>
  \<open>getAppointmentsWithUsers\<close>: find, sort by date then time, skip, limit. \<open>None\<close> is \<open>NaN\<close>;
  \<open>options.limit || 50\<close> and \<open>options.skip || 0\<close> replace \<open>NaN\<close> and \<open>0\<close>. The store refuses
  a negative skip (the failure is thrown on), and reads a negative limit as its absolute value.
\<close>

definition getAppointmentsWithUsers ::
  "appointment list \<Rightarrow> query_filter \<Rightarrow> int option \<Rightarrow> int option \<Rightarrow> string + appointment list" where
  "getAppointmentsWithUsers apps f limit skip =
     (let l = (case limit of None \<Rightarrow> 50 | Some n \<Rightarrow> if n = 0 then 50 else n);
          k = (case skip of None \<Rightarrow> 0 | Some n \<Rightarrow> n)
      in if k < 0 then Inl ''Failed to fetch appointments with user data''
         else Inr (take (nat \<bar>l\<bar>)
                    (drop (nat k) (sort_key (\<lambda>a. (date a, time a)) (filter (matches f) apps)))))"

record list_query =
  q_status :: "string option"
  q_date :: js_date
  q_limit :: "string option"
  q_page :: "string option"

text \<open>\<open>Math.ceil(total / limit)\<close>; \<open>None\<close> is the \<open>NaN\<close> or infinity that JSON writes as null.\<close>

definition ceilDiv :: "int \<Rightarrow> int option \<Rightarrow> int option" where
  "ceilDiv t l = (case l of None \<Rightarrow> None | Some n \<Rightarrow> if n = 0 then None else Some (- ((- t) div n)))"

definition listFilter :: "user \<Rightarrow> list_query \<Rightarrow> instant option \<Rightarrow> query_filter" where
  "listFilter reqUser q startDate =
     (roleFilter reqUser)
       \<lparr>f_status := (case q_status q of
                       None \<Rightarrow> None
                     | Some s \<Rightarrow> if s \<noteq> [] \<and> s \<in> set statusEnum then Some s else None),
        f_date := map_option (\<lambda>d. (d, d + 86400000)) startDate\<rparr>"

definition getAppointments :: "instant \<Rightarrow> db \<Rightarrow> user \<Rightarrow> list_query \<Rightarrow> response" where
  "getAppointments now st reqUser q =
     (if q_date q = InvalidDate then Failure 500 ''Failed to fetch appointments'' []
      else
        (let limit = (case q_limit q of None \<Rightarrow> Some 20 | Some s \<Rightarrow> parseInt s);
             page = (case q_page q of None \<Rightarrow> Some 1 | Some s \<Rightarrow> parseInt s);
             f = listFilter reqUser q (case q_date q of ValidDate d \<Rightarrow> Some d | _ \<Rightarrow> None);
             skip = (case (page, limit) of (Some p, Some l) \<Rightarrow> Some ((p - 1) * l) | _ \<Rightarrow> None)
         in case getAppointmentsWithUsers (appointments st) f limit skip of
              Inl err \<Rightarrow> Failure 500 ''Failed to fetch appointments'' []
            | Inr found \<Rightarrow>
                (let total = length (filter (matches f) (appointments st))
                 in Success 200 None
                      (ManyAppointments (map (getDisplayDetails now (users st)) found)
                         \<lparr>currentPage = page,
                          totalPages = ceilDiv (int total) limit,
                          totalAppointments = total,
                          hasNextPage = (case skip of
                                           None \<Rightarrow> False
                                         | Some k \<Rightarrow> k + int (length found) < int total),
                          hasPrevPage = (case page of None \<Rightarrow> False | Some p \<Rightarrow> p > 1)\<rparr>))))"

section \<open>User status\<close>

text \<open>
  \<open>updateUserStatus\<close>. The stored users satisfy the user schema, whose validators do not
  depend on the clock, so the save of the user does not fail.
\<close>

definition updateUserStatus :: "db \<Rightarrow> user \<Rightarrow> objectId \<Rightarrow> bool \<Rightarrow> db \<times> response" where
  "updateUserStatus st reqUser userId isActive =
     (if u_role reqUser \<noteq> Admin then (st, Failure 403 ''Access denied'' [])
      else
        (case List.find (\<lambda>u. u_id u = userId) (users st) of
           None \<Rightarrow> (st, Failure 404 ''User not found'' [])
         | Some user \<Rightarrow>
             if u_id user = u_id reqUser then
               (st, Failure 400 ''Cannot deactivate your own account'' [])
             else
               (st\<lparr>users := map (\<lambda>u. if u_id u = u_id user then u\<lparr>u_isActive := isActive\<rparr> else u)
                              (users st)\<rparr>,
                Success 200
                  (Some (''User '' @ (if isActive then ''activated'' else ''deactivated'')
                         @ '' successfully''))
                  (Profile (user\<lparr>u_isActive := isActive\<rparr>)))))"

section \<open>Routes and sequential executions\<close>

text \<open>
  The bearer token after verification: absent, malformed, expired, or the user id it carries.
\<close>

datatype token = NoToken | InvalidToken | ExpiredToken | Token objectId

definition authenticateToken :: "db \<Rightarrow> token \<Rightarrow> response + user" where
  "authenticateToken st tok =
     (case tok of
        NoToken \<Rightarrow> Inl (Failure 401 ''Access token is required'' [])
      | InvalidToken \<Rightarrow> Inl (Failure 401 ''Invalid token'' [])
      | ExpiredToken \<Rightarrow> Inl (Failure 401 ''Token has expired'' [])
      | Token userId \<Rightarrow>
          (case List.find (\<lambda>u. u_id u = userId) (users st) of
             None \<Rightarrow> Inl (Failure 401 ''User not found'' [])
           | Some user \<Rightarrow>
               if \<not> u_isActive user then Inl (Failure 401 ''User account is deactivated'' [])
               else Inr user))"

definition authorizeRole :: "role list \<Rightarrow> user \<Rightarrow> response option" where
  "authorizeRole requiredRoles reqUser =
     (if u_role reqUser \<notin> set requiredRoles then Some (Failure 403 ''Insufficient permissions'' [])
      else None)"

datatype request =
  PostAppointment create_body
| GetAppointments list_query
| GetAppointment objectId
| PatchStatus objectId string
| PostCancel objectId
| PatchUserStatus objectId bool

text \<open>The router: the middleware chain of each route, then its controller.\<close>

definition handle :: "instant \<Rightarrow> db \<Rightarrow> token \<Rightarrow> request \<Rightarrow> db \<times> response" where
  "handle now st tok req =
     (case authenticateToken st tok of
        Inl r \<Rightarrow> (st, r)
      | Inr reqUser \<Rightarrow>
          (case req of
             PostAppointment body \<Rightarrow>
               (case authorizeRole [Patient] reqUser of
                  Some r \<Rightarrow> (st, r)
                | None \<Rightarrow> createAppointment now st reqUser body)
           | GetAppointments q \<Rightarrow> (st, getAppointments now st reqUser q)
           | GetAppointment i \<Rightarrow> (st, getAppointmentById now st reqUser i)
           | PatchStatus i s \<Rightarrow> updateAppointmentStatus now st reqUser i s
           | PostCancel i \<Rightarrow> cancelAppointment now st reqUser i
           | PatchUserStatus i b \<Rightarrow>
               (case authorizeRole [Admin] reqUser of
                  Some r \<Rightarrow> (st, r)
                | None \<Rightarrow> updateUserStatus st reqUser i b)))"

text \<open>A sequential execution: requests served one after the other, each at its instant.\<close>

fun run :: "db \<Rightarrow> (instant \<times> token \<times> request) list \<Rightarrow> db" where
  "run st [] = st"
| "run st ((now, tok, req) # rest) = run (fst (handle now st tok req)) rest"

section \<open>Properties of the store\<close>

text \<open>What the conflict guard looks for: a live appointment of another id in the same slot.\<close>

definition slotTaken :: "appointment \<Rightarrow> appointment \<Rightarrow> bool" where
  "slotTaken this b =
     (doctorId b = doctorId this \<and> date b = date this \<and> time b = time this
      \<and> status b \<noteq> ''cancelled'' \<and> aid b \<noteq> aid this)"

text \<open>No two stored documents share an id.\<close>

definition distinctIds :: "appointment list \<Rightarrow> bool" where
  "distinctIds apps = distinct (map aid apps)"

text \<open>No two live appointments share a (doctor, date, time) slot.\<close>

definition noDoubleBooking :: "appointment list \<Rightarrow> bool" where
  "noDoubleBooking apps =
     (\<forall>a \<in> set apps. \<forall>b \<in> set apps.
        status a \<noteq> ''cancelled'' \<and> status b \<noteq> ''cancelled'' \<and> doctorId a = doctorId b
        \<and> date a = date b \<and> time a = time b \<longrightarrow> aid a = aid b)"

definition storeOk :: "db \<Rightarrow> bool" where
  "storeOk st = (distinctIds (appointments st) \<and> noDoubleBooking (appointments st))"

text \<open>
  The caller may act on an appointment: the owning patient, the owning doctor, or an admin.
\<close>

definition owns :: "user \<Rightarrow> appointment \<Rightarrow> bool" where
  "owns reqUser a =
     (case u_role reqUser of
        Patient \<Rightarrow> patientId a = u_id reqUser
      | Doctor \<Rightarrow> doctorId a = u_id reqUser
      | Admin \<Rightarrow> True)"

fun isSuccess :: "response \<Rightarrow> bool" where
  "isSuccess (Success c m p) = True"
| "isSuccess (Failure c m es) = False"

text \<open>The stored appointment of an id, as \<open>findById\<close> reads it.\<close>

definition findById :: "db \<Rightarrow> objectId \<Rightarrow> appointment option" where
  "findById st i = List.find (\<lambda>a. aid a = i) (appointments st)"

section \<open>A clinic to run the operations on\<close>

definition drA :: user where
  "drA = \<lparr>u_id = 1, u_name = ''Dr. A'', u_email = ''a@clinic.test'', u_role = Doctor,
          u_phone = None, u_specialization = Some ''Cardiology'', u_isActive = True,
          u_createdAt = 0\<rparr>"

definition p1 :: user where
  "p1 = \<lparr>u_id = 2, u_name = ''P1'', u_email = ''p1@clinic.test'', u_role = Patient,
         u_phone = None, u_specialization = None, u_isActive = True, u_createdAt = 0\<rparr>"

definition p2 :: user where
  "p2 = \<lparr>u_id = 3, u_name = ''P2'', u_email = ''p2@clinic.test'', u_role = Patient,
         u_phone = None, u_specialization = None, u_isActive = True, u_createdAt = 0\<rparr>"

definition root :: user where
  "root = \<lparr>u_id = 4, u_name = ''Root'', u_email = ''root@clinic.test'', u_role = Admin,
           u_phone = None, u_specialization = None, u_isActive = True, u_createdAt = 0\<rparr>"

definition clinic :: db where
  "clinic = \<lparr>users = [drA, p1, p2, root], appointments = []\<rparr>"

text \<open>2099-01-01T00:00:00Z, and one hour.\<close>

definition day2099 :: instant where
  "day2099 = 4070908800000"

definition hour :: int where
  "hour = 3600000"

definition booking :: "string \<Rightarrow> int option \<Rightarrow> create_body" where
  "booking t d =
     \<lparr>b_doctorId = Some 1, b_date = ValidDate day2099, b_time = Some t, b_notes = None,
      b_symptoms = None, b_duration = d, b_isUrgent = None\<rparr>"

text \<open>A stored appointment of P1 with Dr. A on 2099-01-01, created a day ahead.\<close>

definition visit :: "objectId \<Rightarrow> string \<Rightarrow> string \<Rightarrow> int \<Rightarrow> appointment" where
  "visit i t s d =
     \<lparr>aid = i, patientId = 2, doctorId = 1, date = day2099, time = t, status = s,
      notes' = None, symptoms = None, duration = d, isUrgent = False,
      createdAt = day2099 - 24 * hour, updatedAt = day2099 - 24 * hour\<rparr>"

text \<open>The clinic with a given list of stored appointments.\<close>

definition ward :: "appointment list \<Rightarrow> db" where
  "ward apps = clinic\<lparr>appointments := apps\<rparr>"

text \<open>
  Two versions of a document that agree on the identity and creation fields: everything but
  \<open>status\<close> and \<open>updatedAt\<close>.
\<close>

definition sameButStatus :: "appointment \<Rightarrow> appointment \<Rightarrow> bool" where
  "sameButStatus a a' =
     (aid a' = aid a \<and> patientId a' = patientId a \<and> doctorId a' = doctorId a
      \<and> date a' = date a \<and> time a' = time a \<and> duration a' = duration a
      \<and> notes' a' = notes' a \<and> symptoms a' = symptoms a \<and> isUrgent a' = isUrgent a
      \<and> createdAt a' = createdAt a)"

text \<open>The doctor lookup of \<open>createAppointment\<close> finds a user.\<close>

definition activeDoctor :: "db \<Rightarrow> objectId \<Rightarrow> bool" where
  "activeDoctor st d = (\<exists>u \<in> set (users st). u_id u = d \<and> u_role u = Doctor \<and> u_isActive u)"

text \<open>What of a creation request the schema checks besides date and duration.\<close>

definition wellFormedBody :: "create_body \<Rightarrow> bool" where
  "wellFormedBody body =
     ((case b_time body of None \<Rightarrow> False | Some tm \<Rightarrow> timeMatch tm)
      \<and> (case b_notes body of None \<Rightarrow> True | Some n \<Rightarrow> length (trim n) \<le> 500)
      \<and> (case b_symptoms body of None \<Rightarrow> True | Some sy \<Rightarrow> length (trim sy) \<le> 300))"

text \<open>No live appointment of doctor \<open>d\<close> starts at date \<open>t\<close> and time \<open>tm\<close>.\<close>

definition slotFree :: "db \<Rightarrow> objectId \<Rightarrow> instant \<Rightarrow> string \<Rightarrow> bool" where
  "slotFree st d t tm =
     (\<forall>b \<in> set (appointments st).
        \<not> (doctorId b = d \<and> date b = t \<and> time b = tm \<and> status b \<noteq> ''cancelled''))"

text \<open>A creation request gets as far as the save.\<close>

definition reachesSave :: "instant \<Rightarrow> db \<Rightarrow> create_body \<Rightarrow> objectId \<Rightarrow> instant \<Rightarrow> string \<Rightarrow> bool" where
  "reachesSave now st body d t tm =
     (b_doctorId body = Some d \<and> activeDoctor st d \<and> b_date body = ValidDate t \<and> now < t
      \<and> b_time body = Some tm \<and> tm \<noteq> [])"

text \<open>
  The time intervals of two appointments overlap: each starts before the other ends, an
  appointment lasting \<open>duration\<close> minutes from its start.
\<close>

definition overlaps :: "appointment \<Rightarrow> appointment \<Rightarrow> bool" where
  "overlaps a b =
     (case (appointmentDateTime a, appointmentDateTime b) of
        (Some s, Some s') \<Rightarrow> s < s' + duration b * 60000 \<and> s' < s + duration a * 60000
      | _ \<Rightarrow> False)"







section \<open>The conflict guard and the save\<close>

lemma find_SomeD: "List.find P xs = Some x \<Longrightarrow> x \<in> set xs \<and> P x"
  by (induction xs) (auto split: if_splits)

lemma find_is_None: "List.find P xs = None \<longleftrightarrow> (\<forall>x \<in> set xs. \<not> P x)"
  by (induction xs) auto

lemma preSave_find:
  "preSave apps this =
     (case List.find (slotTaken this) apps of
        Some b \<Rightarrow> Inl (Error ''Appointment slot is already booked'')
      | None \<Rightarrow> Inr ())"
proof -
  have "(\<lambda>b. doctorId b = doctorId this \<and> date b = date this \<and> time b = time this
              \<and> status b \<notin> set [''cancelled''] \<and> aid b \<noteq> aid this) = slotTaken this"
    by (rule ext) (simp add: slotTaken_def)
  then show ?thesis by (simp add: preSave_def)
qed

lemma preSave_taken:
  "(\<exists>b \<in> set apps. slotTaken this b)
   \<Longrightarrow> preSave apps this = Inl (Error ''Appointment slot is already booked'')"
  by (auto simp: preSave_find find_is_None split: option.splits)

lemma preSave_free: "\<not> (\<exists>b \<in> set apps. slotTaken this b) \<Longrightarrow> preSave apps this = Inr ()"
  by (simp add: preSave_find find_is_None [THEN iffD2])

lemma freshId_gt: "b \<in> set apps \<Longrightarrow> aid b < freshId apps"
  by (induction apps) auto

lemma save_cases:
  "save now apps isNew a = Inr (apps', d) \<Longrightarrow>
     validateSchema now a = [] \<and> \<not> (\<exists>b \<in> set apps. slotTaken a b) \<and>
     (isNew \<longrightarrow> d = a\<lparr>createdAt := now, updatedAt := now\<rparr> \<and> apps' = apps @ [d]) \<and>
     (\<not> isNew \<longrightarrow> (d = a \<or> d = a\<lparr>updatedAt := now\<rparr>)
                  \<and> apps' = map (\<lambda>b. if aid b = aid a then d else b) apps)"
  unfolding save_def
  by (cases "\<exists>b \<in> set apps. slotTaken a b")
     (auto simp: Let_def preSave_free preSave_taken split: list.splits sum.splits if_splits)

lemma save_new_inv:
  assumes s: "save now apps True a = Inr (apps', d)"
    and fresh: "\<forall>b \<in> set apps. aid b \<noteq> aid a"
    and di: "distinctIds apps" and nd: "noDoubleBooking apps"
  shows "distinctIds apps' \<and> noDoubleBooking apps'"
proof -
  from save_cases [OF s] have free: "\<forall>b \<in> set apps. \<not> slotTaken a b"
    and d: "d = a\<lparr>createdAt := now, updatedAt := now\<rparr>" and apps': "apps' = apps @ [d]"
    by auto
  have "distinctIds apps'"
    using di fresh by (auto simp: distinctIds_def apps' d)
  moreover have "noDoubleBooking apps'"
    unfolding noDoubleBooking_def
  proof (intro ballI impI)
    fix x y assume x: "x \<in> set apps'" and y: "y \<in> set apps'"
      and h: "status x \<noteq> ''cancelled'' \<and> status y \<noteq> ''cancelled'' \<and> doctorId x = doctorId y
        \<and> date x = date y \<and> time x = time y"
    show "aid x = aid y"
    proof (cases "x = d")
      case True
      show ?thesis
      proof (cases "y = d")
        case True with \<open>x = d\<close> show ?thesis by simp
      next
        case False
        with y have "y \<in> set apps" by (simp add: apps')
        with free have "\<not> slotTaken a y" by blast
        with h True show ?thesis by (auto simp: slotTaken_def d)
      qed
    next
      case False
      with x have xa: "x \<in> set apps" by (simp add: apps')
      show ?thesis
      proof (cases "y = d")
        case True
        from xa free have "\<not> slotTaken a x" by blast
        with h True show ?thesis by (auto simp: slotTaken_def d)
      next
        case False
        with y have "y \<in> set apps" by (simp add: apps')
        with xa nd h show ?thesis unfolding noDoubleBooking_def by blast
      qed
    qed
  qed
  ultimately show ?thesis by simp
qed

lemma save_upd_inv:
  assumes s: "save now apps False a = Inr (apps', d)"
    and di: "distinctIds apps" and nd: "noDoubleBooking apps"
  shows "distinctIds apps' \<and> noDoubleBooking apps'"
proof -
  from save_cases [OF s] have free: "\<forall>b \<in> set apps. \<not> slotTaken a b"
    and d: "d = a \<or> d = a\<lparr>updatedAt := now\<rparr>"
    and apps': "apps' = map (\<lambda>b. if aid b = aid a then d else b) apps"
    by auto
  from d have da: "aid d = aid a" "status d = status a" "doctorId d = doctorId a"
    "date d = date a" "time d = time a" by auto
  have "map aid apps' = map aid apps"
    by (simp add: apps' da o_def cong: map_cong)
  then have "distinctIds apps'" using di by (simp add: distinctIds_def)
  moreover have "noDoubleBooking apps'"
    unfolding noDoubleBooking_def
  proof (intro ballI impI)
    fix x y assume x: "x \<in> set apps'" and y: "y \<in> set apps'"
      and h: "status x \<noteq> ''cancelled'' \<and> status y \<noteq> ''cancelled'' \<and> doctorId x = doctorId y
        \<and> date x = date y \<and> time x = time y"
    from x have xc: "x = d \<or> (x \<in> set apps \<and> aid x \<noteq> aid a)" by (auto simp: apps' split: if_splits)
    from y have yc: "y = d \<or> (y \<in> set apps \<and> aid y \<noteq> aid a)" by (auto simp: apps' split: if_splits)
    show "aid x = aid y"
    proof (cases "x = d")
      case True
      show ?thesis
      proof (cases "y = d")
        case True with \<open>x = d\<close> show ?thesis by simp
      next
        case False
        with yc have "y \<in> set apps" "aid y \<noteq> aid a" by auto
        with free have "\<not> slotTaken a y" by blast
        with h \<open>x = d\<close> da \<open>aid y \<noteq> aid a\<close> show ?thesis by (auto simp: slotTaken_def)
      qed
    next
      case False
      with xc have xa: "x \<in> set apps" "aid x \<noteq> aid a" by auto
      show ?thesis
      proof (cases "y = d")
        case True
        from xa free have "\<not> slotTaken a x" by blast
        with h True da xa show ?thesis by (auto simp: slotTaken_def)
      next
        case False
        with yc have "y \<in> set apps" by auto
        with xa nd h show ?thesis unfolding noDoubleBooking_def by blast
      qed
    qed
  qed
  ultimately show ?thesis by simp
qed

lemma newAppointment_fresh: "\<forall>b \<in> set apps. aid b \<noteq> aid (newAppointment now apps p d t body)"
  using freshId_gt by (fastforce simp: newAppointment_def)

lemma createAppointment_inv:
  assumes "storeOk st"
  shows "storeOk (fst (createAppointment now st reqUser body))"
proof (cases "\<exists>dr t apps' d. save now (appointments st) True
          (newAppointment now (appointments st) (u_id reqUser) dr t body) = Inr (apps', d)
          \<and> fst (createAppointment now st reqUser body) = st\<lparr>appointments := apps'\<rparr>")
  case True
  then obtain dr t apps' d where
    s: "save now (appointments st) True
          (newAppointment now (appointments st) (u_id reqUser) dr t body) = Inr (apps', d)"
    and f: "fst (createAppointment now st reqUser body) = st\<lparr>appointments := apps'\<rparr>" by blast
  from save_new_inv [OF s newAppointment_fresh] assms
  show ?thesis by (simp add: f storeOk_def)
next
  case False
  then have "fst (createAppointment now st reqUser body) = st"
    unfolding createAppointment_def
    by (auto split: option.splits js_date.splits sum.splits save_error.splits if_splits prod.splits)
  with assms show ?thesis by simp
qed

lemma updateAppointmentStatus_inv:
  assumes "storeOk st"
  shows "storeOk (fst (updateAppointmentStatus now st reqUser i s))"
proof (cases "\<exists>a apps' d. save now (appointments st) False a = Inr (apps', d)
          \<and> fst (updateAppointmentStatus now st reqUser i s) = st\<lparr>appointments := apps'\<rparr>")
  case True
  then obtain a apps' d where
    s: "save now (appointments st) False a = Inr (apps', d)"
    and f: "fst (updateAppointmentStatus now st reqUser i s) = st\<lparr>appointments := apps'\<rparr>" by blast
  from save_upd_inv [OF s] assms show ?thesis by (simp add: f storeOk_def)
next
  case False
  then have "fst (updateAppointmentStatus now st reqUser i s) = st"
    unfolding updateAppointmentStatus_def
    by (auto split: option.splits sum.splits if_splits prod.splits)
  with assms show ?thesis by simp
qed

lemma cancelAppointment_inv:
  assumes "storeOk st"
  shows "storeOk (fst (cancelAppointment now st reqUser i))"
proof (cases "\<exists>a apps' d. save now (appointments st) False a = Inr (apps', d)
          \<and> fst (cancelAppointment now st reqUser i) = st\<lparr>appointments := apps'\<rparr>")
  case True
  then obtain a apps' d where
    s: "save now (appointments st) False a = Inr (apps', d)"
    and f: "fst (cancelAppointment now st reqUser i) = st\<lparr>appointments := apps'\<rparr>" by blast
  from save_upd_inv [OF s] assms show ?thesis by (simp add: f storeOk_def)
next
  case False
  then have "fst (cancelAppointment now st reqUser i) = st"
    unfolding cancelAppointment_def
    by (auto split: option.splits sum.splits if_splits prod.splits)
  with assms show ?thesis by simp
qed

lemma updateUserStatus_inv: "appointments (fst (updateUserStatus st reqUser i b)) = appointments st"
  unfolding updateUserStatus_def by (auto split: option.splits)

lemma handle_inv:
  assumes "storeOk st"
  shows "storeOk (fst (handle now st tok req))"
proof (cases "authenticateToken st tok")
  case (Inl r)
  with assms show ?thesis by (simp add: handle_def)
next
  case (Inr reqUser)
  show ?thesis
  proof (cases req)
    case (PostAppointment body)
    with Inr assms createAppointment_inv [of st now reqUser body] show ?thesis
      by (simp add: handle_def split: option.splits)
  next
    case (GetAppointments q) with Inr assms show ?thesis by (simp add: handle_def)
  next
    case (GetAppointment i) with Inr assms show ?thesis by (simp add: handle_def)
  next
    case (PatchStatus i s)
    with Inr assms updateAppointmentStatus_inv [of st now reqUser i s] show ?thesis
      by (simp add: handle_def)
  next
    case (PostCancel i)
    with Inr assms cancelAppointment_inv [of st now reqUser i] show ?thesis
      by (simp add: handle_def)
  next
    case (PatchUserStatus i b)
    with Inr assms updateUserStatus_inv [of st reqUser i b] show ?thesis
      by (simp add: handle_def storeOk_def split: option.splits)
  qed
qed

lemma run_inv: "storeOk st \<Longrightarrow> storeOk (run st reqs)"
  by (induction st reqs rule: run.induct) (auto intro: handle_inv)

lemma save_taken:
  assumes "\<exists>b \<in> set apps. slotTaken this b"
  shows "(\<exists>e. save now apps isNew this = Inl e)
         \<and> (validateSchema now this = []
              \<longrightarrow> save now apps isNew this = Inl (Error ''Appointment slot is already booked''))"
  using preSave_taken [OF assms] by (simp add: save_def split: list.splits)

lemma save_free:
  assumes "\<not> (\<exists>b \<in> set apps. slotTaken this b)" and "validateSchema now this = []"
  shows "\<exists>apps' d. save now apps isNew this = Inr (apps', d)
           \<and> (if isNew then apps' = apps @ [d] else length apps' = length apps)
           \<and> aid d = aid this \<and> doctorId d = doctorId this \<and> date d = date this
           \<and> time d = time this \<and> status d = status this"
  using preSave_free [OF assms(1)] assms(2) by (simp add: save_def Let_def)

section \<open>Status updates and cancellations\<close>

lemma owns_iff:
  "owns reqUser a \<longleftrightarrow>
     \<not> (u_role reqUser = Patient \<and> patientId a \<noteq> u_id reqUser)
     \<and> \<not> (u_role reqUser = Doctor \<and> doctorId a \<noteq> u_id reqUser)"
  by (cases "u_role reqUser") (simp_all add: owns_def)

lemma updateAppointmentStatus_success:
  assumes "updateAppointmentStatus now st reqUser i s = (st', r)" and "isSuccess r"
  shows "\<exists>a d. findById st i = Some a \<and> owns reqUser a \<and> s \<in> set statusEnum
           \<and> save now (appointments st) False (a\<lparr>status := s\<rparr>) = Inr (appointments st', d)
           \<and> users st' = users st"
  using assms unfolding updateAppointmentStatus_def findById_def owns_iff
  by (auto split: if_splits option.splits sum.splits prod.splits)

lemma cancelAppointment_success:
  assumes "cancelAppointment now st reqUser i = (st', r)" and "isSuccess r"
  shows "\<exists>a d. findById st i = Some a \<and> owns reqUser a \<and> canBeCancelled now a
           \<and> save now (appointments st) False (a\<lparr>status := ''cancelled''\<rparr>) = Inr (appointments st', d)
           \<and> users st' = users st"
  using assms unfolding cancelAppointment_def findById_def owns_iff
  by (auto split: if_splits option.splits sum.splits prod.splits)

lemma validate_status_update:
  "validateSchema now a = [] \<Longrightarrow> s \<in> set statusEnum \<Longrightarrow> validateSchema now (a\<lparr>status := s\<rparr>) = []"
  by (simp add: validateSchema_def validateRest_def validateStatus_def)

lemma slotTaken_status [simp]: "slotTaken (a\<lparr>status := s\<rparr>) b = slotTaken a b"
  by (simp add: slotTaken_def)

lemma find_map_replace:
  "List.find (\<lambda>x. aid x = i) xs = Some a \<Longrightarrow> aid d = i
   \<Longrightarrow> List.find (\<lambda>x. aid x = i) (map (\<lambda>b. if aid b = i then d else b) xs) = Some d"
  by (induction xs) (auto split: if_splits)

lemma save_status:
  assumes "List.find (\<lambda>x. aid x = i) apps = Some a" and "s \<in> set statusEnum"
    and "validateSchema now a = []" and "\<not> (\<exists>b \<in> set apps. slotTaken a b)"
  shows "\<exists>apps' d. save now apps False (a\<lparr>status := s\<rparr>) = Inr (apps', d)
           \<and> map_option status (List.find (\<lambda>x. aid x = i) apps') = Some s"
proof -
  from find_SomeD [OF assms(1)] have ai: "aid a = i" by simp
  have v: "validateSchema now (a\<lparr>status := s\<rparr>) = []"
    using assms(2,3) by (rule validate_status_update [rotated])
  have f: "preSave apps (a\<lparr>status := s\<rparr>) = Inr ()"
    using assms(4) by (intro preSave_free) simp
  show ?thesis
    using v f ai find_map_replace [OF assms(1), of "a\<lparr>status := s\<rparr>"]
      find_map_replace [OF assms(1), of "a\<lparr>status := s, updatedAt := now\<rparr>"]
    by (auto simp: save_def Let_def)
qed

lemma update_accepts:
  assumes "s \<in> set statusEnum" and "findById st i = Some a" and "owns reqUser a"
    and "validateSchema now a = []" and "\<not> (\<exists>b \<in> set (appointments st). slotTaken a b)"
  shows "isSuccess (snd (updateAppointmentStatus now st reqUser i s))
         \<and> map_option status (findById (fst (updateAppointmentStatus now st reqUser i s)) i) = Some s"
proof -
  from save_status [OF assms(2) [unfolded findById_def] assms(1,4,5)]
  obtain apps' d where s: "save now (appointments st) False (a\<lparr>status := s\<rparr>) = Inr (apps', d)"
    and f: "map_option status (List.find (\<lambda>x. aid x = i) apps') = Some s" by blast
  from assms(3) have o: "\<not> (u_role reqUser = Patient \<and> patientId a \<noteq> u_id reqUser)"
    "\<not> (u_role reqUser = Doctor \<and> doctorId a \<noteq> u_id reqUser)" by (simp_all add: owns_iff)
  show ?thesis
    using assms(1) assms(2) [unfolded findById_def] o s f
    by (simp add: updateAppointmentStatus_def findById_def)
qed

lemma cancel_accepts:
  assumes "findById st i = Some a" and "owns reqUser a" and "canBeCancelled now a"
    and "validateSchema now a = []" and "\<not> (\<exists>b \<in> set (appointments st). slotTaken a b)"
  shows "snd (cancelAppointment now st reqUser i)
           = Success 200 (Some ''Appointment cancelled successfully'') NoPayload
         \<and> map_option status (findById (fst (cancelAppointment now st reqUser i)) i) = Some ''cancelled''"
proof -
  have e: "''cancelled'' \<in> set statusEnum" by (simp add: statusEnum_def)
  from save_status [OF assms(1) [unfolded findById_def] e assms(4,5)]
  obtain apps' d where s: "save now (appointments st) False (a\<lparr>status := ''cancelled''\<rparr>) = Inr (apps', d)"
    and f: "map_option status (List.find (\<lambda>x. aid x = i) apps') = Some ''cancelled''" by blast
  from assms(2) have o: "\<not> (u_role reqUser = Patient \<and> patientId a \<noteq> u_id reqUser)"
    "\<not> (u_role reqUser = Doctor \<and> doctorId a \<noteq> u_id reqUser)" by (simp_all add: owns_iff)
  show ?thesis
    using assms(1) [unfolded findById_def] assms(3) o s f
    by (simp add: cancelAppointment_def findById_def)
qed

lemma cancel_too_late:
  assumes "findById st i = Some a" and "owns reqUser a" and "\<not> canBeCancelled now a"
  shows "cancelAppointment now st reqUser i
           = (st, Failure 400 ''Appointment cannot be cancelled (less than 2 hours away)'' [])"
proof -
  from assms(2) have o: "\<not> (u_role reqUser = Patient \<and> patientId a \<noteq> u_id reqUser)"
    "\<not> (u_role reqUser = Doctor \<and> doctorId a \<noteq> u_id reqUser)" by (simp_all add: owns_iff)
  show ?thesis
    using assms(1) [unfolded findById_def] assms(3) o
    by (simp add: cancelAppointment_def)
qed

lemma canBeCancelled_iff:
  "canBeCancelled now a \<longleftrightarrow> (\<exists>t. appointmentDateTime a = Some t \<and> t - now > 2 * hour)"
  by (auto simp: canBeCancelled_def hour_def split: option.splits)

section \<open>The start of an appointment\<close>

lemma isDigit_facts:
  assumes "isDigit c"
  shows "c \<noteq> CHR '':''" "\<not> isSpace c" "c \<noteq> CHR ''-''" "c \<noteq> CHR ''+''"
    "c \<noteq> CHR ''x''" "c \<noteq> CHR ''X''" "0 \<le> digitVal c" "digitVal c \<le> 9"
  using assms by (auto simp: isDigit_def isSpace_def digitVal_def)

lemma low_digit_facts:
  assumes "c \<in> set ''012345''"
  shows "isDigit c" "digitVal c \<le> 5"
  using assms by (auto simp: isDigit_def digitVal_def)

lemma parseInt_one: "isDigit h \<Longrightarrow> parseInt [h] = Some (digitVal h)"
  by (simp add: parseInt_def parseDigits_def isDigit_facts)

lemma parseInt_two:
  "isDigit a \<Longrightarrow> isDigit b \<Longrightarrow> parseInt [a, b] = Some (digitVal a * 10 + digitVal b)"
  by (simp add: parseInt_def parseDigits_def isDigit_facts)

lemma splitColon_4:
  "isDigit h \<Longrightarrow> isDigit m1 \<Longrightarrow> isDigit m2
   \<Longrightarrow> splitColon [h, CHR '':'', m1, m2] = [[h], [m1, m2]]"
  by (simp add: isDigit_facts)

lemma splitColon_5:
  "isDigit h1 \<Longrightarrow> isDigit h2 \<Longrightarrow> isDigit m1 \<Longrightarrow> isDigit m2
   \<Longrightarrow> splitColon [h1, h2, CHR '':'', m1, m2] = [[h1, h2], [m1, m2]]"
  by (simp add: isDigit_facts)


lemma tm4:
  assumes "isDigit h" "m1 \<in> set ''012345''" "isDigit m2"
  shows "\<exists>hh m. 0 \<le> hh \<and> hh < 24 \<and> 0 \<le> m \<and> m < 60
           \<and> parseIntAt (splitColon [h, CHR '':'', m1, m2]) 0 = Some hh
           \<and> parseIntAt (splitColon [h, CHR '':'', m1, m2]) 1 = Some m"
proof -
  from assms(2) have m1: "isDigit m1" "digitVal m1 \<le> 5" by (rule low_digit_facts)+
  have s: "splitColon [h, CHR '':'', m1, m2] = [[h], [m1, m2]]"
    using assms(1) m1(1) assms(3) by (rule splitColon_4)
  have "parseIntAt [[h], [m1, m2]] 0 = Some (digitVal h)"
    using assms(1) by (simp add: parseIntAt_def parseInt_one)
  moreover have "parseIntAt [[h], [m1, m2]] 1 = Some (digitVal m1 * 10 + digitVal m2)"
    using assms(3) m1(1) by (simp add: parseIntAt_def parseInt_two)
  moreover have "0 \<le> digitVal h" "digitVal h < 24" "0 \<le> digitVal m1 * 10 + digitVal m2"
    "digitVal m1 * 10 + digitVal m2 < 60"
    using isDigit_facts(7,8) [OF assms(1)] isDigit_facts(7,8) [OF m1(1)]
      isDigit_facts(7,8) [OF assms(3)] m1(2)
    by linarith+
  ultimately show ?thesis unfolding s by blast
qed


lemma tm5:
  assumes "(h1 \<in> set ''01'' \<and> isDigit h2) \<or> (h1 = CHR ''2'' \<and> h2 \<in> set ''0123'')"
    and "m1 \<in> set ''012345''" and "isDigit m2"
  shows "\<exists>hh m. 0 \<le> hh \<and> hh < 24 \<and> 0 \<le> m \<and> m < 60
           \<and> parseIntAt (splitColon [h1, h2, CHR '':'', m1, m2]) 0 = Some hh
           \<and> parseIntAt (splitColon [h1, h2, CHR '':'', m1, m2]) 1 = Some m"
proof -
  from assms(2) have m1: "isDigit m1" "digitVal m1 \<le> 5" by (rule low_digit_facts)+
  have h: "isDigit h1 \<and> isDigit h2 \<and> digitVal h1 * 10 + digitVal h2 < 24"
    using assms(1)
  proof
    assume a: "h1 \<in> set ''01'' \<and> isDigit h2"
    then have "h1 \<in> set ''01''" by simp
    then have "isDigit h1" "digitVal h1 \<le> 1" by (auto simp: isDigit_def digitVal_def)
    with a isDigit_facts(8) [of h2] show ?thesis by simp
  next
    assume a: "h1 = CHR ''2'' \<and> h2 \<in> set ''0123''"
    then have "h1 = CHR ''2''" and h2: "h2 \<in> set ''0123''" by simp_all
    then have "isDigit h1" "digitVal h1 = 2" by (simp_all add: isDigit_def digitVal_def)
    moreover from h2 have "isDigit h2" "digitVal h2 \<le> 3" by (auto simp: isDigit_def digitVal_def)
    ultimately show ?thesis by simp
  qed
  have s: "splitColon [h1, h2, CHR '':'', m1, m2] = [[h1, h2], [m1, m2]]"
    using h m1(1) assms(3) by (simp add: splitColon_5 del: splitColon.simps)
  have "parseIntAt [[h1, h2], [m1, m2]] 0 = Some (digitVal h1 * 10 + digitVal h2)"
    using h by (simp add: parseIntAt_def parseInt_two)
  moreover have "parseIntAt [[h1, h2], [m1, m2]] 1 = Some (digitVal m1 * 10 + digitVal m2)"
    using assms(3) m1(1) by (simp add: parseIntAt_def parseInt_two)
  moreover have "0 \<le> digitVal h1 * 10 + digitVal h2" "0 \<le> digitVal m1 * 10 + digitVal m2"
    "digitVal m1 * 10 + digitVal m2 < 60"
    using isDigit_facts(7,8) [of h1] isDigit_facts(7,8) [of h2] h isDigit_facts(7,8) [OF m1(1)]
      isDigit_facts(7,8) [OF assms(3)] m1(2)
    by linarith+
  ultimately show ?thesis unfolding s using h by blast
qed


lemma timeMatch_parts:
  assumes "timeMatch t"
  shows "\<exists>h m. 0 \<le> h \<and> h < 24 \<and> 0 \<le> m \<and> m < 60
           \<and> parseIntAt (splitColon t) 0 = Some h \<and> parseIntAt (splitColon t) 1 = Some m"
proof (cases t rule: timeMatch.cases)
  case (1 h c m1 m2)
  with assms have "isDigit h" "c = CHR '':''" "m1 \<in> set ''012345''" "isDigit m2" by simp_all
  with tm4 [of h m1 m2] 1 show ?thesis by blast
next
  case (2 h1 h2 c m1 m2)
  with assms have "(h1 \<in> set ''01'' \<and> isDigit h2) \<or> (h1 = CHR ''2'' \<and> h2 \<in> set ''0123'')"
    "c = CHR '':''" "m1 \<in> set ''012345''" "isDigit m2" by simp_all
  with tm5 [of h1 h2 m1 m2] 2 show ?thesis by blast
qed (use assms in simp_all)

lemma midnight_start:
  assumes "d mod 86400000 = 0"
  shows "setMinutes (setHours d h) m = d + h * hour + m * 60000"
proof -
  have "(86400000::int) dvd d" using assms by (simp add: dvd_eq_mod_eq_0)
  moreover have "(3600000::int) dvd 86400000" by simp
  ultimately have "(3600000::int) dvd d" by (rule dvd_trans [rotated])
  then have "(3600000::int) dvd d + h * 3600000" by simp
  then have "(d + h * 3600000) mod 3600000 = 0" by (simp add: dvd_eq_mod_eq_0)
  with assms show ?thesis by (simp add: setMinutes_def setHours_def hour_def)
qed

lemma appointmentDateTime_valid:
  assumes "timeMatch (time a)" and "date a mod 86400000 = 0"
  shows "\<exists>h m. 0 \<le> h \<and> h < 24 \<and> 0 \<le> m \<and> m < 60
           \<and> appointmentDateTime a = Some (date a + h * hour + m * 60000)"
  using timeMatch_parts [OF assms(1)] midnight_start [OF assms(2)]
  by (auto simp: appointmentDateTime_def)

section \<open>Lookups by id\<close>

lemma matches_byId:
  "matches ((roleFilter u)\<lparr>f_id := Some i\<rparr>) a \<longleftrightarrow> aid a = i \<and> owns u a"
  by (cases "u_role u") (auto simp: matches_def roleFilter_def owns_def)

lemma distinct_aid_unique:
  "distinctIds xs \<Longrightarrow> a \<in> set xs \<Longrightarrow> b \<in> set xs \<Longrightarrow> aid a = aid b \<Longrightarrow> a = b"
  by (auto simp: distinctIds_def distinct_map dest: inj_onD)

lemma getAppointmentById_absent:
  assumes "findById st i = None"
  shows "getAppointmentById now st reqUser i = Failure 404 ''Appointment not found'' []"
proof -
  from assms have "\<forall>a \<in> set (appointments st). aid a \<noteq> i"
    by (simp add: findById_def find_is_None)
  then have "List.find (matches ((roleFilter reqUser)\<lparr>f_id := Some i\<rparr>)) (appointments st) = None"
    by (simp add: find_is_None matches_byId)
  then show ?thesis by (simp add: getAppointmentById_def)
qed

lemma getAppointmentById_hidden:
  assumes "findById st i = Some a" and "\<not> owns reqUser a" and "distinctIds (appointments st)"
  shows "getAppointmentById now st reqUser i = Failure 404 ''Appointment not found'' []"
proof -
  from find_SomeD [OF assms(1) [unfolded findById_def]]
  have a: "a \<in> set (appointments st)" "aid a = i" by simp_all
  have "\<forall>b \<in> set (appointments st). \<not> (aid b = i \<and> owns reqUser b)"
  proof
    fix b assume b: "b \<in> set (appointments st)"
    show "\<not> (aid b = i \<and> owns reqUser b)"
    proof
      assume h: "aid b = i \<and> owns reqUser b"
      with a b assms(3) have "a = b" by (intro distinct_aid_unique [of "appointments st"]) simp_all
      with h assms(2) show False by simp
    qed
  qed
  then have "List.find (matches ((roleFilter reqUser)\<lparr>f_id := Some i\<rparr>)) (appointments st) = None"
    by (simp add: find_is_None matches_byId)
  then show ?thesis by (simp add: getAppointmentById_def)
qed

lemma mutate_absent:
  assumes "findById st i = None"
  shows "s \<in> set statusEnum \<Longrightarrow> updateAppointmentStatus now st reqUser i s
           = (st, Failure 404 ''Appointment not found'' [])"
    and "cancelAppointment now st reqUser i = (st, Failure 404 ''Appointment not found'' [])"
  using assms by (simp_all add: updateAppointmentStatus_def cancelAppointment_def findById_def)

lemma mutate_denied:
  assumes "findById st i = Some a" and "\<not> owns reqUser a"
  shows "s \<in> set statusEnum \<Longrightarrow> updateAppointmentStatus now st reqUser i s
           = (st, Failure 403 ''Access denied'' [])"
    and "cancelAppointment now st reqUser i = (st, Failure 403 ''Access denied'' [])"
  using assms by (auto simp: updateAppointmentStatus_def cancelAppointment_def findById_def owns_iff)

section \<open>The frame of a save\<close>

lemma frame_of_save:
  assumes s: "save now apps False (a\<lparr>status := s\<rparr>) = Inr (apps', d)"
    and f: "List.find (\<lambda>x. aid x = i) apps = Some a" and di: "distinctIds apps"
  shows "list_all2 (\<lambda>x x'. sameButStatus x x' \<and> (aid x \<noteq> i \<longrightarrow> x' = x)) apps apps'"
proof -
  from find_SomeD [OF f] have a: "a \<in> set apps" "aid a = i" by simp_all
  from save_cases [OF s] have d: "d = a\<lparr>status := s\<rparr> \<or> d = a\<lparr>status := s, updatedAt := now\<rparr>"
    and apps': "apps' = map (\<lambda>b. if aid b = aid a then d else b) apps" by auto
  from d have sd: "sameButStatus a d" by (auto simp: sameButStatus_def)
  have "\<forall>x \<in> set apps. sameButStatus x (if aid x = aid a then d else x)
                         \<and> (aid x \<noteq> i \<longrightarrow> (if aid x = aid a then d else x) = x)"
  proof
    fix x assume x: "x \<in> set apps"
    show "sameButStatus x (if aid x = aid a then d else x)
          \<and> (aid x \<noteq> i \<longrightarrow> (if aid x = aid a then d else x) = x)"
    proof (cases "aid x = aid a")
      case True
      with distinct_aid_unique [OF di x a(1)] have "x = a" by simp
      with sd a(2) show ?thesis by simp
    next
      case False
      then show ?thesis by (simp add: sameButStatus_def)
    qed
  qed
  then show ?thesis unfolding apps' by (simp add: list_all2_map2 list.rel_refl_strong)
qed

section \<open>Creation requests that fail\<close>


lemma createAppointment_past:
  assumes "b_date body = ValidDate t" and "t \<le> now"
  shows "fst (createAppointment now st reqUser body) = st"
    and "\<not> isSuccess (snd (createAppointment now st reqUser body))"
  using assms unfolding createAppointment_def
  by (auto split: if_splits option.splits)

lemma activeDoctor_find:
  assumes "activeDoctor st d"
  shows "\<exists>doctor. List.find (\<lambda>u. u_id u = d \<and> u_role u = Doctor \<and> u_isActive u) (users st)
                    = Some doctor \<and> u_id doctor = d"
proof (cases "List.find (\<lambda>u. u_id u = d \<and> u_role u = Doctor \<and> u_isActive u) (users st)")
  case None
  with assms show ?thesis by (auto simp: find_is_None activeDoctor_def)
next
  case (Some doctor)
  with find_SomeD [OF Some] show ?thesis by simp
qed

lemma createAppointment_past_message:
  assumes "b_date body = ValidDate t" and "t \<le> now"
    and "b_doctorId body = Some d" and "\<not> falsy (b_time body)" and "activeDoctor st d"
  shows "createAppointment now st reqUser body
           = (st, Failure 400 ''Appointment date cannot be in the past'' [])"
proof -
  from activeDoctor_find [OF assms(5)] obtain doctor where
    "List.find (\<lambda>u. u_id u = d \<and> u_role u = Doctor \<and> u_isActive u) (users st) = Some doctor"
    by blast
  with assms(1-4) show ?thesis by (simp add: createAppointment_def)
qed

lemma createAppointment_changes:
  assumes "fst (createAppointment now st reqUser body) \<noteq> st
           \<or> isSuccess (snd (createAppointment now st reqUser body))"
  shows "\<exists>t. b_date body = ValidDate t \<and> now < t"
  using assms unfolding createAppointment_def
  by (auto split: if_splits option.splits js_date.splits sum.splits save_error.splits prod.splits)

lemma handle_post_past:
  assumes "b_date body = ValidDate t" and "t \<le> now"
  shows "fst (handle now st tok (PostAppointment body)) = st"
    and "\<not> isSuccess (snd (handle now st tok (PostAppointment body)))"
  using createAppointment_past [OF assms]
  by (auto simp: handle_def authenticateToken_def authorizeRole_def
      split: sum.splits option.splits token.splits if_splits)

section \<open>Creation requests that succeed\<close>

lemma valid_time: "validateSchema now a = [] \<Longrightarrow> timeMatch (time a)"
  by (auto simp: validateSchema_def validateRest_def validateTime_def split: if_splits)

lemma save_new_stored:
  assumes "save now apps True a = Inr (apps', d)"
  shows "apps' = apps @ [d] \<and> date d = date a \<and> time d = time a \<and> timeMatch (time d)"
  using save_cases [OF assms] valid_time [of now a] by auto

lemma createAppointment_stored:
  assumes "isSuccess (snd (createAppointment now st reqUser body))"
  shows "\<exists>t a. b_date body = ValidDate t \<and> now < t
           \<and> appointments (fst (createAppointment now st reqUser body)) = appointments st @ [a]
           \<and> date a = t \<and> timeMatch (time a)"
  using assms unfolding createAppointment_def
  by (auto split: if_splits option.splits js_date.splits sum.splits save_error.splits prod.splits
      dest!: save_new_stored simp: newAppointment_def)

lemma start_after_date:
  assumes "timeMatch (time a)" and "date a mod 86400000 = 0"
  shows "\<exists>start. appointmentDateTime a = Some start \<and> date a \<le> start"
proof -
  from appointmentDateTime_valid [OF assms] obtain h m where
    "0 \<le> h" "0 \<le> m" "appointmentDateTime a = Some (date a + h * hour + m * 60000)" by blast
  then show ?thesis by (simp add: hour_def)
qed

lemma createAppointment_start_future:
  assumes "isSuccess (snd (createAppointment now st reqUser body))"
    and "b_date body = ValidDate t" and "t mod 86400000 = 0"
  shows "\<exists>a start. appointments (fst (createAppointment now st reqUser body)) = appointments st @ [a]
           \<and> appointmentDateTime a = Some start \<and> now < start"
proof -
  from createAppointment_stored [OF assms(1)] assms(2) obtain a where
    a: "now < t" "appointments (fst (createAppointment now st reqUser body)) = appointments st @ [a]"
      "date a = t" "timeMatch (time a)" by auto
  from start_after_date [OF a(4)] a(3) assms(3) obtain start where
    "appointmentDateTime a = Some start" "t \<le> start" by auto
  with a show ?thesis by fastforce
qed

section \<open>Creation requests at the save\<close>

lemma createAppointment_at_save:
  assumes "reachesSave now st body d t tm"
  shows "createAppointment now st reqUser body =
           (case save now (appointments st) True
                   (newAppointment now (appointments st) (u_id reqUser) d t body) of
              Inl (Error m) \<Rightarrow>
                if m = ''Appointment slot is already booked'' then (st, Failure 400 m [])
                else (st, Failure 500 ''Failed to create appointment'' [])
            | Inl (ValidationError errs) \<Rightarrow> (st, Failure 400 ''Validation failed'' errs)
            | Inr (apps', a) \<Rightarrow>
                (st\<lparr>appointments := apps'\<rparr>,
                 Success 201 (Some ''Appointment created successfully'')
                   (OneAppointment (getDisplayDetails now (users st) a))))"
proof -
  from assms have a: "b_doctorId body = Some d" "activeDoctor st d" "b_date body = ValidDate t"
    "now < t" "b_time body = Some tm" "tm \<noteq> []" by (simp_all add: reachesSave_def)
  from activeDoctor_find [OF a(2)] obtain doctor where
    "List.find (\<lambda>u. u_id u = d \<and> u_role u = Doctor \<and> u_isActive u) (users st) = Some doctor"
    "u_id doctor = d" by blast
  with a show ?thesis by (simp add: createAppointment_def falsy_def)
qed






lemma validate_new:
  assumes "wellFormedBody body" and "now < t"
    and "15 \<le> durationOrDefault (b_duration body)" and "durationOrDefault (b_duration body) \<le> 120"
  shows "validateSchema now (newAppointment now apps p d t body) = []"
  using assms
  by (auto simp: validateSchema_def validateRest_def validateDate_def validateTime_def
      validateStatus_def statusEnum_def validateMaxlength_def validateDuration_def
      newAppointment_def wellFormedBody_def split: option.splits)


section \<open>Saving two appointments\<close>

lemma save_new_ok:
  assumes "validateSchema now a = []" and "\<not> (\<exists>x \<in> set apps. slotTaken a x)"
  shows "save now apps True a
           = Inr (apps @ [a\<lparr>createdAt := now, updatedAt := now\<rparr>],
                  a\<lparr>createdAt := now, updatedAt := now\<rparr>)"
  using preSave_free [OF assms(2)] assms(1) by (simp add: save_def Let_def)

lemma appointmentDateTime_stamp:
  "appointmentDateTime (a\<lparr>createdAt := x, updatedAt := y\<rparr>) = appointmentDateTime a"
  by (simp add: appointmentDateTime_def split: option.splits)

lemma overlaps_stamp:
  "overlaps (a\<lparr>createdAt := x, updatedAt := y\<rparr>) (b\<lparr>createdAt := x', updatedAt := y'\<rparr>)
     = overlaps a b"
  unfolding overlaps_def appointmentDateTime_stamp by (simp split: option.splits)

section \<open>Updating a user\<close>

lemma updateUserStatus_self:
  assumes "userId = u_id reqUser"
  shows "fst (updateUserStatus st reqUser userId isActive) = st"
    and "\<not> isSuccess (snd (updateUserStatus st reqUser userId isActive))"
  using assms
  by (auto simp: updateUserStatus_def split: option.splits dest: find_SomeD)

lemma updateUserStatus_self_admin:
  assumes "userId = u_id reqUser" and "u_role reqUser = Admin"
    and "\<exists>u \<in> set (users st). u_id u = userId"
  shows "updateUserStatus st reqUser userId isActive
           = (st, Failure 400 ''Cannot deactivate your own account'' [])"
proof (cases "List.find (\<lambda>u. u_id u = userId) (users st)")
  case None
  with assms(3) show ?thesis by (auto simp: find_is_None)
next
  case (Some user)
  with find_SomeD [OF Some] assms(1,2) show ?thesis by (simp add: updateUserStatus_def)
qed

lemma authenticateToken_user:
  assumes "authenticateToken st (Token userId) = Inr reqUser"
  shows "u_id reqUser = userId \<and> reqUser \<in> set (users st) \<and> u_isActive reqUser"
  using assms
  by (auto simp: authenticateToken_def split: option.splits if_splits dest: find_SomeD)

section \<open>Listing\<close>

lemma matches_roleFilter: "matches (roleFilter u) a \<longleftrightarrow> owns u a"
  by (cases "u_role u") (auto simp: matches_def roleFilter_def owns_def)









section \<open>A taken slot at creation\<close>

lemma create_conflict:
  assumes r: "reachesSave now st body d t tm" and w: "wellFormedBody body"
    and lo: "15 \<le> durationOrDefault (b_duration body)"
    and hi: "durationOrDefault (b_duration body) \<le> 120"
    and nf: "\<not> slotFree st d t tm"
  shows "createAppointment now st reqUser body
           = (st, Failure 400 ''Appointment slot is already booked'' [])"
proof -
  let ?n = "newAppointment now (appointments st) (u_id reqUser) d t body"
  from r have t: "now < t" "b_time body = Some tm" by (simp_all add: reachesSave_def)
  have v: "validateSchema now ?n = []" using w t(1) lo hi by (rule validate_new)
  from nf obtain b where b: "b \<in> set (appointments st)" "doctorId b = d" "date b = t"
    "time b = tm" "status b \<noteq> ''cancelled''" by (auto simp: slotFree_def)
  from freshId_gt [OF b(1)] have "aid b \<noteq> aid ?n" by (simp add: newAppointment_def)
  with b t(2) have "\<exists>b \<in> set (appointments st). slotTaken ?n b"
    by (auto simp: slotTaken_def newAppointment_def)
  from save_taken [OF this, of now True] v
  have "save now (appointments st) True ?n = Inl (Error ''Appointment slot is already booked'')"
    by simp
  then show ?thesis by (simp add: createAppointment_at_save [OF r])
qed

section \<open>C1: the conflict guard\<close>

lemma save_valid:
  assumes "validateSchema now this = []"
  shows "save now apps isNew this =
           (if \<exists>b \<in> set apps. slotTaken this b
            then Inl (Error ''Appointment slot is already booked'')
            else if isNew
            then Inr (apps @ [this\<lparr>createdAt := now, updatedAt := now\<rparr>],
                      this\<lparr>createdAt := now, updatedAt := now\<rparr>)
            else if List.find (\<lambda>b. aid b = aid this) apps = Some this
            then Inr (map (\<lambda>b. if aid b = aid this then this else b) apps, this)
            else Inr (map (\<lambda>b. if aid b = aid this then this\<lparr>updatedAt := now\<rparr> else b) apps,
                      this\<lparr>updatedAt := now\<rparr>))"
proof (cases "\<exists>b \<in> set apps. slotTaken this b")
  case True
  from preSave_taken [OF True] assms True show ?thesis by (simp add: save_def)
next
  case False
  from preSave_free [OF False] assms False show ?thesis by (simp add: save_def Let_def)
qed

lemma save_not_valid:
  assumes "validateSchema now this \<noteq> []"
  shows "save now apps isNew this = Inl (ValidationError (validateSchema now this))"
  using assms by (cases "validateSchema now this") (simp_all add: save_def)

lemma create_free:
  assumes r: "reachesSave now st body d t tm" and w: "wellFormedBody body"
    and lo: "15 \<le> durationOrDefault (b_duration body)"
    and hi: "durationOrDefault (b_duration body) \<le> 120"
    and f: "slotFree st d t tm"
  shows "createAppointment now st reqUser body
           = (st\<lparr>appointments := appointments st
                    @ [newAppointment now (appointments st) (u_id reqUser) d t body]\<rparr>,
              Success 201 (Some ''Appointment created successfully'')
                (OneAppointment
                   (getDisplayDetails now (users st)
                      (newAppointment now (appointments st) (u_id reqUser) d t body))))"
proof -
  let ?n = "newAppointment now (appointments st) (u_id reqUser) d t body"
  from r have t: "now < t" "b_time body = Some tm" by (simp_all add: reachesSave_def)
  have v: "validateSchema now ?n = []" using w t(1) lo hi by (rule validate_new)
  have n: "\<not> (\<exists>b \<in> set (appointments st). slotTaken ?n b)"
    using f t(2) by (auto simp: slotFree_def slotTaken_def newAppointment_def)
  have e: "?n\<lparr>createdAt := now, updatedAt := now\<rparr> = ?n" by (simp add: newAppointment_def)
  from save_valid [OF v, of "appointments st" True] n e
  have "save now (appointments st) True ?n = Inr (appointments st @ [?n], ?n)" by simp
  then show ?thesis by (simp add: createAppointment_at_save [OF r])
qed

text \<open>
  C1, as the code has it. The pre-save hook fails with "Appointment slot is already booked"
  exactly when another stored appointment of the same doctor, date and time is not cancelled.
  Schema validation runs before the hook: a document that fails it is rejected with the
  validation error, whether the slot is taken or not. For a document that passes it, the save
  fails with the conflict error when the slot is taken, and otherwise succeeds and writes the
  document: a new one is appended with its timestamps, a loaded one replaces the stored
  document of its id, with a new \<open>updatedAt\<close> when it was modified. A save with the slot taken
  never writes anything. At the controller, a creation request that gets as far as the save
  with a well-formed body and a duration in range is refused with 400 and the conflict
  message, the store unchanged, when the slot is taken, and otherwise answers 201 and appends
  the new appointment to the store. Consequently every sequential execution of requests keeps
  the ids distinct and the store free of two live appointments in one (doctor, date, time)
  slot.
\<close>

theorem conflict_guard:
  "preSave apps this =
     (if \<exists>b \<in> set apps. slotTaken this b
      then Inl (Error ''Appointment slot is already booked'') else Inr ())
   \<and> (validateSchema now this \<noteq> [] \<longrightarrow>
        save now apps isNew this = Inl (ValidationError (validateSchema now this)))
   \<and> (validateSchema now this = [] \<longrightarrow>
        save now apps isNew this =
          (if \<exists>b \<in> set apps. slotTaken this b
           then Inl (Error ''Appointment slot is already booked'')
           else if isNew
           then Inr (apps @ [this\<lparr>createdAt := now, updatedAt := now\<rparr>],
                     this\<lparr>createdAt := now, updatedAt := now\<rparr>)
           else if List.find (\<lambda>b. aid b = aid this) apps = Some this
           then Inr (map (\<lambda>b. if aid b = aid this then this else b) apps, this)
           else Inr (map (\<lambda>b. if aid b = aid this then this\<lparr>updatedAt := now\<rparr> else b) apps,
                     this\<lparr>updatedAt := now\<rparr>)))
   \<and> ((\<exists>b \<in> set apps. slotTaken this b) \<longrightarrow> (\<exists>e. save now apps isNew this = Inl e))
   \<and> (storeOk st \<longrightarrow> storeOk (run st reqs))
   \<and> (reachesSave now st body d t tm \<and> wellFormedBody body
        \<and> 15 \<le> durationOrDefault (b_duration body)
        \<and> durationOrDefault (b_duration body) \<le> 120 \<longrightarrow>
      createAppointment now st reqUser body =
        (if slotFree st d t tm
         then (st\<lparr>appointments := appointments st
                    @ [newAppointment now (appointments st) (u_id reqUser) d t body]\<rparr>,
               Success 201 (Some ''Appointment created successfully'')
                 (OneAppointment
                    (getDisplayDetails now (users st)
                       (newAppointment now (appointments st) (u_id reqUser) d t body))))
         else (st, Failure 400 ''Appointment slot is already booked'' [])))"
proof (intro conjI impI)
  show "preSave apps this =
     (if \<exists>b \<in> set apps. slotTaken this b
      then Inl (Error ''Appointment slot is already booked'') else Inr ())"
    using preSave_taken [of apps this] preSave_free [of apps this] by (simp split: if_splits)
next
  assume "validateSchema now this \<noteq> []"
  then show "save now apps isNew this = Inl (ValidationError (validateSchema now this))"
    by (rule save_not_valid)
next
  assume "validateSchema now this = []"
  then show "save now apps isNew this =
          (if \<exists>b \<in> set apps. slotTaken this b
           then Inl (Error ''Appointment slot is already booked'')
           else if isNew
           then Inr (apps @ [this\<lparr>createdAt := now, updatedAt := now\<rparr>],
                     this\<lparr>createdAt := now, updatedAt := now\<rparr>)
           else if List.find (\<lambda>b. aid b = aid this) apps = Some this
           then Inr (map (\<lambda>b. if aid b = aid this then this else b) apps, this)
           else Inr (map (\<lambda>b. if aid b = aid this then this\<lparr>updatedAt := now\<rparr> else b) apps,
                     this\<lparr>updatedAt := now\<rparr>))"
    by (rule save_valid)
next
  assume "\<exists>b \<in> set apps. slotTaken this b"
  then show "\<exists>e. save now apps isNew this = Inl e" using save_taken by blast
next
  assume "storeOk st" then show "storeOk (run st reqs)" by (rule run_inv)
next
  assume h: "reachesSave now st body d t tm \<and> wellFormedBody body
        \<and> 15 \<le> durationOrDefault (b_duration body)
        \<and> durationOrDefault (b_duration body) \<le> 120"
  show "createAppointment now st reqUser body =
        (if slotFree st d t tm
         then (st\<lparr>appointments := appointments st
                    @ [newAppointment now (appointments st) (u_id reqUser) d t body]\<rparr>,
               Success 201 (Some ''Appointment created successfully'')
                 (OneAppointment
                    (getDisplayDetails now (users st)
                       (newAppointment now (appointments st) (u_id reqUser) d t body))))
         else (st, Failure 400 ''Appointment slot is already booked'' []))"
  proof (cases "slotFree st d t tm")
    case True
    with h create_free [of now st body d t tm reqUser] show ?thesis by simp
  next
    case False
    with h create_conflict [of now st body d t tm reqUser] show ?thesis by simp
  qed
qed

text \<open>
  The sentence of the specification, as written, fails on the code: a document with duration
  14 is rejected with the validation error, not the conflict error, when its slot is taken,
  and is rejected too when its slot is free; at the controller the request for the taken slot
  is answered "Validation failed".
\<close>

theorem validation_precedes_guard:
  "slotTaken (visit 1 ''10:00'' ''pending'' 14) (visit 0 ''10:00'' ''pending'' 30)
   \<and> save (day2099 - hour) [visit 0 ''10:00'' ''pending'' 30] True
         (visit 1 ''10:00'' ''pending'' 14)
       = Inl (ValidationError [''Appointment duration must be at least 15 minutes''])
   \<and> save (day2099 - hour) [] True (visit 1 ''10:00'' ''pending'' 14)
       = Inl (ValidationError [''Appointment duration must be at least 15 minutes''])
   \<and> createAppointment (day2099 - hour) (ward [visit 0 ''10:00'' ''pending'' 30]) p2
         (booking ''10:00'' (Some 14))
       = (ward [visit 0 ''10:00'' ''pending'' 30],
          Failure 400 ''Validation failed''
            [''Appointment duration must be at least 15 minutes''])"
  by code_simp

theorem conflict_guard_witness:
  "(\<exists>b \<in> set [visit 0 ''10:00'' ''pending'' 30]. slotTaken (visit 1 ''10:00'' ''pending'' 30) b)
   \<and> validateSchema (day2099 - hour) (visit 1 ''10:00'' ''pending'' 30) = []
   \<and> save (day2099 - hour) [visit 0 ''10:00'' ''pending'' 30] True (visit 1 ''10:00'' ''pending'' 30)
       = Inl (Error ''Appointment slot is already booked'')
   \<and> \<not> (\<exists>b \<in> set [visit 0 ''10:00'' ''cancelled'' 30]. slotTaken (visit 1 ''10:00'' ''pending'' 30) b)
   \<and> save (day2099 - hour) [visit 0 ''10:00'' ''cancelled'' 30] True
         (visit 1 ''10:00'' ''pending'' 30)
       = Inr ([visit 0 ''10:00'' ''cancelled'' 30,
               (visit 1 ''10:00'' ''pending'' 30)
                 \<lparr>createdAt := day2099 - hour, updatedAt := day2099 - hour\<rparr>],
              (visit 1 ''10:00'' ''pending'' 30)
                \<lparr>createdAt := day2099 - hour, updatedAt := day2099 - hour\<rparr>)
   \<and> validateSchema (day2099 - hour) (visit 0 ''10:00'' ''confirmed'' 30) = []
   \<and> save (day2099 - hour) [visit 0 ''10:00'' ''pending'' 30, visit 1 ''11:00'' ''pending'' 30]
         False (visit 0 ''10:00'' ''confirmed'' 30)
       = Inr ([(visit 0 ''10:00'' ''confirmed'' 30)\<lparr>updatedAt := day2099 - hour\<rparr>,
               visit 1 ''11:00'' ''pending'' 30],
              (visit 0 ''10:00'' ''confirmed'' 30)\<lparr>updatedAt := day2099 - hour\<rparr>)
   \<and> validateSchema (day2099 - hour) (visit 1 ''10:00'' ''pending'' 14) \<noteq> []
   \<and> save (day2099 - hour) [] True (visit 1 ''10:00'' ''pending'' 14)
       = Inl (ValidationError (validateSchema (day2099 - hour) (visit 1 ''10:00'' ''pending'' 14)))
   \<and> storeOk clinic
   \<and> storeOk (run clinic
        [(day2099 - 24 * hour, Token 2, PostAppointment (booking ''10:00'' (Some 30))),
         (day2099 - 23 * hour, Token 3, PostAppointment (booking ''10:00'' (Some 30))),
         (day2099 - hour, Token 2, PostCancel 0),
         (day2099 - hour + 1, Token 3, PostAppointment (booking ''10:00'' (Some 30)))])
   \<and> reachesSave (day2099 - hour) (ward [visit 0 ''10:00'' ''pending'' 30])
         (booking ''10:00'' (Some 30)) 1 day2099 ''10:00''
   \<and> wellFormedBody (booking ''10:00'' (Some 30))
   \<and> \<not> slotFree (ward [visit 0 ''10:00'' ''pending'' 30]) 1 day2099 ''10:00''
   \<and> createAppointment (day2099 - hour) (ward [visit 0 ''10:00'' ''pending'' 30]) p2
         (booking ''10:00'' (Some 30))
       = (ward [visit 0 ''10:00'' ''pending'' 30],
          Failure 400 ''Appointment slot is already booked'' [])
   \<and> slotFree (ward [visit 0 ''10:00'' ''cancelled'' 30]) 1 day2099 ''10:00''
   \<and> map (\<lambda>a. (aid a, patientId a, time a, status a))
         (appointments (fst (createAppointment (day2099 - hour)
            (ward [visit 0 ''10:00'' ''cancelled'' 30]) p2 (booking ''10:00'' (Some 30)))))
       = [(0, 2, ''10:00'', ''cancelled''), (1, 3, ''10:00'', ''pending'')]"
proof -
  let ?w = "ward [visit 0 ''10:00'' ''pending'' 30]"
  let ?c = "ward [visit 0 ''10:00'' ''cancelled'' 30]"
  let ?b = "booking ''10:00'' (Some 30)"
  let ?v = "visit 1 ''10:00'' ''pending'' 30"
  let ?u = "visit 0 ''10:00'' ''confirmed'' 30"
  let ?x = "visit 1 ''10:00'' ''pending'' 14"
  have taken: "\<exists>b \<in> set [visit 0 ''10:00'' ''pending'' 30]. slotTaken ?v b"
    by (simp add: slotTaken_def visit_def)
  have valid: "validateSchema (day2099 - hour) ?v = []" by code_simp
  have free: "\<not> (\<exists>b \<in> set [visit 0 ''10:00'' ''cancelled'' 30]. slotTaken ?v b)"
    by (simp add: slotTaken_def visit_def)
  have validu: "validateSchema (day2099 - hour) ?u = []" by code_simp
  have freeu: "\<not> (\<exists>b \<in> set [visit 0 ''10:00'' ''pending'' 30, visit 1 ''11:00'' ''pending'' 30].
                     slotTaken ?u b)"
    by (simp add: slotTaken_def visit_def)
  have modu: "List.find (\<lambda>b. aid b = aid ?u)
                [visit 0 ''10:00'' ''pending'' 30, visit 1 ''11:00'' ''pending'' 30] \<noteq> Some ?u"
    by (simp add: visit_def)
  have invalid: "validateSchema (day2099 - hour) ?x \<noteq> []" by code_simp
  have ok: "storeOk clinic"
    by (simp add: storeOk_def clinic_def distinctIds_def noDoubleBooking_def)
  have s1: "save (day2099 - hour) [visit 0 ''10:00'' ''pending'' 30] True ?v
              = Inl (Error ''Appointment slot is already booked'')"
    using taken
      conflict_guard [where apps = "[visit 0 ''10:00'' ''pending'' 30]" and this = ?v
        and now = "day2099 - hour" and isNew = True,
        THEN conjunct2, THEN conjunct2, THEN conjunct1, THEN mp, OF valid]
    by simp
  have s2: "save (day2099 - hour) [visit 0 ''10:00'' ''cancelled'' 30] True ?v
       = Inr ([visit 0 ''10:00'' ''cancelled'' 30,
               ?v\<lparr>createdAt := day2099 - hour, updatedAt := day2099 - hour\<rparr>],
              ?v\<lparr>createdAt := day2099 - hour, updatedAt := day2099 - hour\<rparr>)"
    using free
      conflict_guard [where apps = "[visit 0 ''10:00'' ''cancelled'' 30]" and this = ?v
        and now = "day2099 - hour" and isNew = True,
        THEN conjunct2, THEN conjunct2, THEN conjunct1, THEN mp, OF valid]
    by simp
  have s2u: "save (day2099 - hour) [visit 0 ''10:00'' ''pending'' 30, visit 1 ''11:00'' ''pending'' 30]
         False ?u
       = Inr ([?u\<lparr>updatedAt := day2099 - hour\<rparr>, visit 1 ''11:00'' ''pending'' 30],
              ?u\<lparr>updatedAt := day2099 - hour\<rparr>)"
    using freeu modu
      conflict_guard [where apps = "[visit 0 ''10:00'' ''pending'' 30, visit 1 ''11:00'' ''pending'' 30]"
        and this = ?u and now = "day2099 - hour" and isNew = False,
        THEN conjunct2, THEN conjunct2, THEN conjunct1, THEN mp, OF validu]
    by (simp add: visit_def)
  have s2x: "save (day2099 - hour) [] True ?x
       = Inl (ValidationError (validateSchema (day2099 - hour) ?x))"
    by (rule conflict_guard [where apps = "[]" and this = ?x and now = "day2099 - hour"
          and isNew = True, THEN conjunct2, THEN conjunct1, THEN mp, OF invalid])
  have s3: "storeOk (run clinic
        [(day2099 - 24 * hour, Token 2, PostAppointment (booking ''10:00'' (Some 30))),
         (day2099 - 23 * hour, Token 3, PostAppointment (booking ''10:00'' (Some 30))),
         (day2099 - hour, Token 2, PostCancel 0),
         (day2099 - hour + 1, Token 3, PostAppointment (booking ''10:00'' (Some 30)))])"
    by (rule conflict_guard [where st = clinic,
          THEN conjunct2, THEN conjunct2, THEN conjunct2, THEN conjunct2, THEN conjunct1,
          THEN mp, OF ok])
  have r: "reachesSave (day2099 - hour) ?w ?b 1 day2099 ''10:00''"
    by (simp add: reachesSave_def booking_def activeDoctor_def ward_def clinic_def drA_def
        hour_def)
  have r': "reachesSave (day2099 - hour) ?c ?b 1 day2099 ''10:00''"
    by (simp add: reachesSave_def booking_def activeDoctor_def ward_def clinic_def drA_def
        hour_def)
  have w: "wellFormedBody ?b" by (simp add: wellFormedBody_def booking_def isDigit_def)
  have n: "\<not> slotFree ?w 1 day2099 ''10:00''"
    by (simp add: slotFree_def ward_def visit_def)
  have f': "slotFree ?c 1 day2099 ''10:00''"
    by (simp add: slotFree_def ward_def visit_def)
  have p: "reachesSave (day2099 - hour) ?w ?b 1 day2099 ''10:00'' \<and> wellFormedBody ?b
        \<and> 15 \<le> durationOrDefault (b_duration ?b) \<and> durationOrDefault (b_duration ?b) \<le> 120"
    using r w by (simp add: durationOrDefault_def booking_def)
  have p': "reachesSave (day2099 - hour) ?c ?b 1 day2099 ''10:00'' \<and> wellFormedBody ?b
        \<and> 15 \<le> durationOrDefault (b_duration ?b) \<and> durationOrDefault (b_duration ?b) \<le> 120"
    using r' w by (simp add: durationOrDefault_def booking_def)
  from conflict_guard [where now = "day2099 - hour" and st = ?w and body = ?b and d = 1
      and t = day2099 and tm = "''10:00''" and reqUser = p2,
      THEN conjunct2, THEN conjunct2, THEN conjunct2, THEN conjunct2, THEN conjunct2,
      THEN mp, OF p] n
  have s4: "createAppointment (day2099 - hour) ?w p2 ?b
              = (?w, Failure 400 ''Appointment slot is already booked'' [])"
    by simp
  from conflict_guard [where now = "day2099 - hour" and st = ?c and body = ?b and d = 1
      and t = day2099 and tm = "''10:00''" and reqUser = p2,
      THEN conjunct2, THEN conjunct2, THEN conjunct2, THEN conjunct2, THEN conjunct2,
      THEN mp, OF p'] f'
  have "appointments (fst (createAppointment (day2099 - hour) ?c p2 ?b))
          = appointments ?c @ [newAppointment (day2099 - hour) (appointments ?c) (u_id p2) 1
                                 day2099 ?b]"
    by simp
  then have s5: "map (\<lambda>a. (aid a, patientId a, time a, status a))
         (appointments (fst (createAppointment (day2099 - hour) ?c p2 ?b)))
       = [(0, 2, ''10:00'', ''cancelled''), (1, 3, ''10:00'', ''pending'')]"
    by (simp add: ward_def visit_def newAppointment_def booking_def p2_def)
  from taken valid free validu invalid ok s1 s2 s2u s2x s3 r w n s4 f' s5
  show ?thesis by blast
qed

section \<open>C2: status transitions\<close>

text \<open>
  C2, as the code has it. \<open>updateAppointmentStatus\<close> enforces no transition table. A requested
  status outside the four enum values is refused with 400 "Invalid status value" and nothing
  changes. Any of the four values is accepted whatever the current status is (the same status,
  or a change away from completed or cancelled, included), for a caller who is the owning
  patient, the owning doctor or an admin, whenever the save of the stored appointment passes:
  it still satisfies the schema at that instant and no other live appointment holds its slot.
  The stored status is then the requested one.
\<close>

theorem status_update_unrestricted:
  "(s \<notin> set statusEnum \<longrightarrow>
      updateAppointmentStatus now st reqUser i s = (st, Failure 400 ''Invalid status value'' []))
   \<and> (s \<in> set statusEnum \<and> findById st i = Some a \<and> owns reqUser a
        \<and> validateSchema now a = [] \<and> \<not> (\<exists>b \<in> set (appointments st). slotTaken a b) \<longrightarrow>
      isSuccess (snd (updateAppointmentStatus now st reqUser i s))
      \<and> map_option status (findById (fst (updateAppointmentStatus now st reqUser i s)) i) = Some s)"
proof (intro conjI impI)
  assume "s \<notin> set statusEnum"
  then show "updateAppointmentStatus now st reqUser i s = (st, Failure 400 ''Invalid status value'' [])"
    by (simp add: updateAppointmentStatus_def)
next
  assume h: "s \<in> set statusEnum \<and> findById st i = Some a \<and> owns reqUser a
        \<and> validateSchema now a = [] \<and> \<not> (\<exists>b \<in> set (appointments st). slotTaken a b)"
  then have r: "isSuccess (snd (updateAppointmentStatus now st reqUser i s))
      \<and> map_option status (findById (fst (updateAppointmentStatus now st reqUser i s)) i) = Some s"
    using update_accepts [of s st i a reqUser now] by blast
  from r show "isSuccess (snd (updateAppointmentStatus now st reqUser i s))" by simp
  from r show "map_option status (findById (fst (updateAppointmentStatus now st reqUser i s)) i) = Some s"
    by simp
qed

text \<open>
  The sentence of the specification, as written, fails on the code: an admin reopens a cancelled appointment as pending, and a
  patient moves their completed appointment back to confirmed.
\<close>

theorem terminal_status_reopened:
  "status (visit 0 ''10:00'' ''cancelled'' 30) = ''cancelled''
   \<and> isSuccess (snd (updateAppointmentStatus (day2099 - hour)
                      (ward [visit 0 ''10:00'' ''cancelled'' 30]) root 0 ''pending''))
   \<and> map status (appointments (fst (updateAppointmentStatus (day2099 - hour)
                      (ward [visit 0 ''10:00'' ''cancelled'' 30]) root 0 ''pending''))) = [''pending'']
   \<and> isSuccess (snd (updateAppointmentStatus (day2099 - hour)
                      (ward [visit 0 ''10:00'' ''completed'' 30]) p1 0 ''confirmed''))
   \<and> map status (appointments (fst (updateAppointmentStatus (day2099 - hour)
                      (ward [visit 0 ''10:00'' ''completed'' 30]) p1 0 ''confirmed''))) = [''confirmed'']"
  by code_simp

theorem status_update_unrestricted_witness:
  "''bogus'' \<notin> set statusEnum
   \<and> updateAppointmentStatus (day2099 - hour) (ward [visit 0 ''10:00'' ''completed'' 30]) drA 0 ''bogus''
       = (ward [visit 0 ''10:00'' ''completed'' 30], Failure 400 ''Invalid status value'' [])
   \<and> ''pending'' \<in> set statusEnum
   \<and> findById (ward [visit 0 ''10:00'' ''completed'' 30]) 0 = Some (visit 0 ''10:00'' ''completed'' 30)
   \<and> owns drA (visit 0 ''10:00'' ''completed'' 30)
   \<and> validateSchema (day2099 - hour) (visit 0 ''10:00'' ''completed'' 30) = []
   \<and> \<not> (\<exists>b \<in> set (appointments (ward [visit 0 ''10:00'' ''completed'' 30])).
            slotTaken (visit 0 ''10:00'' ''completed'' 30) b)
   \<and> isSuccess (snd (updateAppointmentStatus (day2099 - hour)
                      (ward [visit 0 ''10:00'' ''completed'' 30]) drA 0 ''pending''))
   \<and> map_option status (findById (fst (updateAppointmentStatus (day2099 - hour)
                      (ward [visit 0 ''10:00'' ''completed'' 30]) drA 0 ''pending'')) 0) = Some ''pending''"
proof -
  have a: "''bogus'' \<notin> set statusEnum" by (simp add: statusEnum_def)
  have b: "''pending'' \<in> set statusEnum" by (simp add: statusEnum_def)
  have c: "findById (ward [visit 0 ''10:00'' ''completed'' 30]) 0 = Some (visit 0 ''10:00'' ''completed'' 30)"
    by (simp add: findById_def ward_def visit_def)
  have d: "owns drA (visit 0 ''10:00'' ''completed'' 30)"
    by (simp add: owns_def drA_def visit_def)
  have e: "validateSchema (day2099 - hour) (visit 0 ''10:00'' ''completed'' 30) = []"
    by code_simp
  have f: "\<not> (\<exists>b \<in> set (appointments (ward [visit 0 ''10:00'' ''completed'' 30])).
            slotTaken (visit 0 ''10:00'' ''completed'' 30) b)"
    by (simp add: ward_def slotTaken_def)
  from a status_update_unrestricted [of "''bogus''" "day2099 - hour" "ward [visit 0 ''10:00'' ''completed'' 30]" drA 0]
  have g: "updateAppointmentStatus (day2099 - hour) (ward [visit 0 ''10:00'' ''completed'' 30]) drA 0 ''bogus''
       = (ward [visit 0 ''10:00'' ''completed'' 30], Failure 400 ''Invalid status value'' [])"
    by blast
  from b c d e f status_update_unrestricted [of "''pending''" "day2099 - hour"
      "ward [visit 0 ''10:00'' ''completed'' 30]" drA 0 "visit 0 ''10:00'' ''completed'' 30"]
  have h: "isSuccess (snd (updateAppointmentStatus (day2099 - hour)
                      (ward [visit 0 ''10:00'' ''completed'' 30]) drA 0 ''pending''))
   \<and> map_option status (findById (fst (updateAppointmentStatus (day2099 - hour)
                      (ward [visit 0 ''10:00'' ''completed'' 30]) drA 0 ''pending'')) 0) = Some ''pending''"
    by blast
  from a b c d e f g h show ?thesis by blast
qed

section \<open>C3: the cancellation window\<close>

text \<open>
  C3, as the code has it. The start of an appointment is its date with the hours and minutes
  of its time (for a date at midnight and a time that matches the schema's pattern: the date
  plus those hours and minutes). For a caller who is the owning patient, the owning doctor or
  an admin: when the start is at most 2 hours away (or cannot be computed), cancelling fails
  with 400 "Appointment cannot be cancelled (less than 2 hours away)", and nothing changes,
  for an admin as for anyone else; when the start is more than 2 hours away, the stored
  appointment still satisfies the schema at that instant and no other live appointment holds
  its slot, cancelling succeeds and the stored status is cancelled.
\<close>

theorem cancellation_cutoff:
  "findById st i = Some a \<and> owns reqUser a \<longrightarrow>
     ((appointmentDateTime a = None \<or> (\<exists>t. appointmentDateTime a = Some t \<and> t - now \<le> 2 * hour)) \<longrightarrow>
        cancelAppointment now st reqUser i
          = (st, Failure 400 ''Appointment cannot be cancelled (less than 2 hours away)'' []))
     \<and> ((\<exists>t. appointmentDateTime a = Some t \<and> 2 * hour < t - now)
          \<and> validateSchema now a = [] \<and> \<not> (\<exists>b \<in> set (appointments st). slotTaken a b) \<longrightarrow>
        snd (cancelAppointment now st reqUser i)
          = Success 200 (Some ''Appointment cancelled successfully'') NoPayload
        \<and> map_option status (findById (fst (cancelAppointment now st reqUser i)) i)
            = Some ''cancelled'')
     \<and> (timeMatch (time a) \<and> date a mod 86400000 = 0 \<longrightarrow>
        (\<exists>h m. 0 \<le> h \<and> h < 24 \<and> 0 \<le> m \<and> m < 60
           \<and> appointmentDateTime a = Some (date a + h * hour + m * 60000)))"
proof (intro impI conjI)
  assume h: "findById st i = Some a \<and> owns reqUser a"
    and "appointmentDateTime a = None \<or> (\<exists>t. appointmentDateTime a = Some t \<and> t - now \<le> 2 * hour)"
  then have "\<not> canBeCancelled now a" by (auto simp: canBeCancelled_iff)
  with h show "cancelAppointment now st reqUser i
          = (st, Failure 400 ''Appointment cannot be cancelled (less than 2 hours away)'' [])"
    using cancel_too_late [of st i a reqUser now] by blast
next
  assume h: "findById st i = Some a \<and> owns reqUser a"
    and g: "(\<exists>t. appointmentDateTime a = Some t \<and> 2 * hour < t - now)
          \<and> validateSchema now a = [] \<and> \<not> (\<exists>b \<in> set (appointments st). slotTaken a b)"
  then have c: "canBeCancelled now a" by (auto simp: canBeCancelled_iff)
  from h g c cancel_accepts [of st i a reqUser now]
  have r: "snd (cancelAppointment now st reqUser i)
           = Success 200 (Some ''Appointment cancelled successfully'') NoPayload
         \<and> map_option status (findById (fst (cancelAppointment now st reqUser i)) i) = Some ''cancelled''"
    by blast
  from r show "snd (cancelAppointment now st reqUser i)
          = Success 200 (Some ''Appointment cancelled successfully'') NoPayload" by simp
  from r show "map_option status (findById (fst (cancelAppointment now st reqUser i)) i)
            = Some ''cancelled''" by simp
next
  assume "timeMatch (time a) \<and> date a mod 86400000 = 0"
  then show "\<exists>h m. 0 \<le> h \<and> h < 24 \<and> 0 \<le> m \<and> m < 60
           \<and> appointmentDateTime a = Some (date a + h * hour + m * 60000)"
    by (elim conjE) (rule appointmentDateTime_valid)
qed

text \<open>
  The sentence of the specification, as written, fails on the code: an admin who cancels 90 minutes before the start gets the
  timing error, and the appointment stays pending.
\<close>

theorem admin_inside_cutoff_refused:
  "u_role root = Admin
   \<and> appointmentDateTime (visit 0 ''00:30'' ''pending'' 30) = Some (day2099 + 30 * 60000)
   \<and> cancelAppointment (day2099 - hour) (ward [visit 0 ''00:30'' ''pending'' 30]) root 0
       = (ward [visit 0 ''00:30'' ''pending'' 30],
          Failure 400 ''Appointment cannot be cancelled (less than 2 hours away)'' [])"
  by code_simp

theorem cancellation_cutoff_witness:
  "findById (ward [visit 0 ''10:00'' ''pending'' 30]) 0 = Some (visit 0 ''10:00'' ''pending'' 30)
   \<and> owns root (visit 0 ''10:00'' ''pending'' 30) \<and> owns p1 (visit 0 ''10:00'' ''pending'' 30)
   \<and> appointmentDateTime (visit 0 ''10:00'' ''pending'' 30) = Some (day2099 + 10 * hour)
   \<and> (day2099 + 10 * hour) - (day2099 + 9 * hour) \<le> 2 * hour
   \<and> cancelAppointment (day2099 + 9 * hour) (ward [visit 0 ''10:00'' ''pending'' 30]) root 0
       = (ward [visit 0 ''10:00'' ''pending'' 30],
          Failure 400 ''Appointment cannot be cancelled (less than 2 hours away)'' [])
   \<and> 2 * hour < (day2099 + 10 * hour) - (day2099 - hour)
   \<and> validateSchema (day2099 - hour) (visit 0 ''10:00'' ''pending'' 30) = []
   \<and> \<not> (\<exists>b \<in> set (appointments (ward [visit 0 ''10:00'' ''pending'' 30])).
            slotTaken (visit 0 ''10:00'' ''pending'' 30) b)
   \<and> snd (cancelAppointment (day2099 - hour) (ward [visit 0 ''10:00'' ''pending'' 30]) p1 0)
       = Success 200 (Some ''Appointment cancelled successfully'') NoPayload
   \<and> map_option status (findById (fst (cancelAppointment (day2099 - hour)
         (ward [visit 0 ''10:00'' ''pending'' 30]) p1 0)) 0) = Some ''cancelled''
   \<and> timeMatch (time (visit 0 ''10:00'' ''pending'' 30))
   \<and> date (visit 0 ''10:00'' ''pending'' 30) mod 86400000 = 0"
proof -
  let ?a = "visit 0 ''10:00'' ''pending'' 30"
  have m: "timeMatch (time ?a)" "date ?a mod 86400000 = 0" by code_simp+
  have f: "findById (ward [?a]) 0 = Some ?a" by (simp add: findById_def ward_def visit_def)
  have o: "owns root ?a" "owns p1 ?a" by (simp_all add: owns_def root_def p1_def visit_def)
  have t: "appointmentDateTime ?a = Some (day2099 + 10 * hour)" by code_simp
  have l: "(day2099 + 10 * hour) - (day2099 + 9 * hour) \<le> 2 * hour" by (simp add: hour_def)
  have e: "2 * hour < (day2099 + 10 * hour) - (day2099 - hour)" by (simp add: hour_def)
  have v: "validateSchema (day2099 - hour) ?a = []" by code_simp
  have n: "\<not> (\<exists>b \<in> set (appointments (ward [?a])). slotTaken ?a b)"
    by (simp add: ward_def slotTaken_def)
  from f o(1) t l cancellation_cutoff [of "ward [?a]" 0 ?a root "day2099 + 9 * hour"]
  have r1: "cancelAppointment (day2099 + 9 * hour) (ward [?a]) root 0
       = (ward [?a], Failure 400 ''Appointment cannot be cancelled (less than 2 hours away)'' [])"
    by blast
  from f o(2) t e v n cancellation_cutoff [of "ward [?a]" 0 ?a p1 "day2099 - hour"]
  have r2: "snd (cancelAppointment (day2099 - hour) (ward [?a]) p1 0)
       = Success 200 (Some ''Appointment cancelled successfully'') NoPayload
   \<and> map_option status (findById (fst (cancelAppointment (day2099 - hour) (ward [?a]) p1 0)) 0)
       = Some ''cancelled''"
    by blast
  from f o t l e v n r1 r2 m show ?thesis by blast
qed

section \<open>C4: a date in the past\<close>

text \<open>
  C4, as the code has it. The check is on the date field alone; the time field is not read.
  A creation request whose date is not later than the instant of submission is rejected and
  persists nothing, whoever the caller is, at the controller and behind the route's
  middleware alike; when the request names a doctor and a time and the doctor is an active
  doctor (the two checks that come first), the rejection is the validation error
  400 "Appointment date cannot be in the past". Conversely a creation changes the store, or
  answers with success, only when the date is later than the instant of submission; and when
  the date is a midnight (of UTC, the server's time zone here), the appointment it stores
  starts (date with the hours and minutes of time) after the instant of submission.
\<close>

theorem past_date_rejected:
  "(b_date body = ValidDate t \<and> t \<le> now \<longrightarrow>
      fst (createAppointment now st reqUser body) = st
      \<and> \<not> isSuccess (snd (createAppointment now st reqUser body))
      \<and> fst (handle now st tok (PostAppointment body)) = st
      \<and> \<not> isSuccess (snd (handle now st tok (PostAppointment body)))
      \<and> (b_doctorId body = Some d \<and> \<not> falsy (b_time body) \<and> activeDoctor st d \<longrightarrow>
           createAppointment now st reqUser body
             = (st, Failure 400 ''Appointment date cannot be in the past'' [])))
   \<and> (fst (createAppointment now st reqUser body) \<noteq> st
        \<or> isSuccess (snd (createAppointment now st reqUser body)) \<longrightarrow>
      (\<exists>t'. b_date body = ValidDate t' \<and> now < t'))
   \<and> (isSuccess (snd (createAppointment now st reqUser body))
        \<and> b_date body = ValidDate t \<and> t mod 86400000 = 0 \<longrightarrow>
      (\<exists>a start. appointments (fst (createAppointment now st reqUser body))
                    = appointments st @ [a]
                  \<and> appointmentDateTime a = Some start \<and> now < start))"
proof (intro conjI impI)
  assume h: "b_date body = ValidDate t \<and> t \<le> now"
  then show "fst (createAppointment now st reqUser body) = st"
    using createAppointment_past(1) [of body t now st reqUser] by simp
  from h show "\<not> isSuccess (snd (createAppointment now st reqUser body))"
    using createAppointment_past(2) [of body t now st reqUser] by simp
  from h show "fst (handle now st tok (PostAppointment body)) = st"
    using handle_post_past(1) [of body t now st tok] by simp
  from h show "\<not> isSuccess (snd (handle now st tok (PostAppointment body)))"
    using handle_post_past(2) [of body t now st tok] by simp
next
  assume "b_date body = ValidDate t \<and> t \<le> now"
    and "b_doctorId body = Some d \<and> \<not> falsy (b_time body) \<and> activeDoctor st d"
  then show "createAppointment now st reqUser body
             = (st, Failure 400 ''Appointment date cannot be in the past'' [])"
    using createAppointment_past_message [of body t now d st reqUser] by simp
next
  assume "fst (createAppointment now st reqUser body) \<noteq> st
        \<or> isSuccess (snd (createAppointment now st reqUser body))"
  then show "\<exists>t'. b_date body = ValidDate t' \<and> now < t'"
    by (rule createAppointment_changes)
next
  assume "isSuccess (snd (createAppointment now st reqUser body))
        \<and> b_date body = ValidDate t \<and> t mod 86400000 = 0"
  then show "\<exists>a start. appointments (fst (createAppointment now st reqUser body))
                    = appointments st @ [a]
                  \<and> appointmentDateTime a = Some start \<and> now < start"
    by (elim conjE) (rule createAppointment_start_future)
qed

text \<open>
  The sentence of the specification, as written, fails on the code. A request sent at 12:00
  with the date 2099-01-01T15:30:45.5Z and the time 9:05 is accepted, and the appointment it
  stores starts at 09:05:45.5, which is already past. A request with a past date is answered
  404 when its doctor is unknown, and 403 by the route when the caller is an admin or a
  doctor: neither is a validation error.
\<close>

theorem past_start_accepted:
  "isSuccess (snd (createAppointment (day2099 + 12 * hour) clinic p1
                     ((booking ''9:05'' (Some 30))\<lparr>b_date := ValidDate (day2099 + 55845500)\<rparr>)))
   \<and> map appointmentDateTime
         (appointments (fst (createAppointment (day2099 + 12 * hour) clinic p1
            ((booking ''9:05'' (Some 30))\<lparr>b_date := ValidDate (day2099 + 55845500)\<rparr>))))
       = [Some (day2099 + 32745500)]
   \<and> day2099 + 32745500 < day2099 + 12 * hour
   \<and> createAppointment (day2099 + hour) clinic p1
         ((booking ''10:00'' (Some 30))\<lparr>b_doctorId := Some 99\<rparr>)
       = (clinic, Failure 404 ''Doctor not found or inactive'' [])
   \<and> handle (day2099 + hour) clinic (Token 4) (PostAppointment (booking ''10:00'' (Some 30)))
       = (clinic, Failure 403 ''Insufficient permissions'' [])
   \<and> handle (day2099 + hour) clinic (Token 1) (PostAppointment (booking ''10:00'' (Some 30)))
       = (clinic, Failure 403 ''Insufficient permissions'' [])"
  by code_simp

theorem past_date_rejected_witness:
  "b_date (booking ''10:00'' (Some 30)) = ValidDate day2099 \<and> day2099 \<le> day2099 + hour
   \<and> b_doctorId (booking ''10:00'' (Some 30)) = Some 1
   \<and> \<not> falsy (b_time (booking ''10:00'' (Some 30))) \<and> activeDoctor clinic 1
   \<and> createAppointment (day2099 + hour) clinic root (booking ''10:00'' (Some 30))
       = (clinic, Failure 400 ''Appointment date cannot be in the past'' [])
   \<and> fst (handle (day2099 + hour) clinic (Token 4) (PostAppointment (booking ''10:00'' (Some 30))))
       = clinic
   \<and> isSuccess (snd (createAppointment (day2099 - hour) clinic p1 (booking ''10:00'' (Some 30))))
   \<and> (\<exists>t'. b_date (booking ''10:00'' (Some 30)) = ValidDate t' \<and> day2099 - hour < t')
   \<and> day2099 mod 86400000 = 0
   \<and> (\<exists>a start. appointments (fst (createAppointment (day2099 - hour) clinic p1
                                        (booking ''10:00'' (Some 30))))
                    = appointments clinic @ [a]
                  \<and> appointmentDateTime a = Some start \<and> day2099 - hour < start)"
proof -
  let ?b = "booking ''10:00'' (Some 30)"
  have a: "b_date ?b = ValidDate day2099" "b_doctorId ?b = Some 1" "\<not> falsy (b_time ?b)"
    by (simp_all add: booking_def falsy_def)
  have b: "day2099 \<le> day2099 + hour" by (simp add: hour_def)
  have c: "activeDoctor clinic 1" by (simp add: activeDoctor_def clinic_def drA_def)
  have s: "isSuccess (snd (createAppointment (day2099 - hour) clinic p1 ?b))" by code_simp
  from a b c past_date_rejected [where body = ?b and t = day2099 and now = "day2099 + hour"
      and st = clinic and reqUser = root and tok = "Token 4" and d = 1]
  have r1: "createAppointment (day2099 + hour) clinic root ?b
       = (clinic, Failure 400 ''Appointment date cannot be in the past'' [])"
    "fst (handle (day2099 + hour) clinic (Token 4) (PostAppointment ?b)) = clinic"
    by blast+
  from s past_date_rejected [where body = ?b and now = "day2099 - hour" and st = clinic
      and reqUser = p1]
  have r2: "\<exists>t'. b_date ?b = ValidDate t' \<and> day2099 - hour < t'" by blast
  have m: "day2099 mod 86400000 = 0" by (simp add: day2099_def)
  have r3: "\<exists>a start. appointments (fst (createAppointment (day2099 - hour) clinic p1 ?b))
                    = appointments clinic @ [a]
                  \<and> appointmentDateTime a = Some start \<and> day2099 - hour < start"
    by (rule past_date_rejected [where body = ?b and now = "day2099 - hour" and st = clinic
          and reqUser = p1 and t = day2099, THEN conjunct2, THEN conjunct2, THEN mp,
          OF conjI [OF s conjI [OF a(1) m]]])
  from a b c s r1 r2 m r3 show ?thesis by blast
qed

section \<open>C5: the duration\<close>




section \<open>C6: what a listing shows\<close>




section \<open>C7: what a caller outside the scope is told\<close>

text \<open>
  C7, as the code has it. Reading an appointment by id answers 404 "Appointment not found"
  both for an id that matches no appointment and for an appointment outside the caller's
  scope, so the read reveals nothing. The status update (with a valid target status) and the
  cancellation look the appointment up first and check the caller after: an id that matches
  nothing gets 404, an appointment outside the caller's scope gets 403 "Access denied".
\<close>

theorem out_of_scope_responses:
  "(findById st i = None \<longrightarrow>
      getAppointmentById now st reqUser i = Failure 404 ''Appointment not found'' []
      \<and> (s \<in> set statusEnum \<longrightarrow> updateAppointmentStatus now st reqUser i s
            = (st, Failure 404 ''Appointment not found'' []))
      \<and> cancelAppointment now st reqUser i = (st, Failure 404 ''Appointment not found'' []))
   \<and> (findById st i = Some a \<and> \<not> owns reqUser a \<longrightarrow>
      (distinctIds (appointments st) \<longrightarrow>
         getAppointmentById now st reqUser i = Failure 404 ''Appointment not found'' [])
      \<and> (s \<in> set statusEnum \<longrightarrow> updateAppointmentStatus now st reqUser i s
            = (st, Failure 403 ''Access denied'' []))
      \<and> cancelAppointment now st reqUser i = (st, Failure 403 ''Access denied'' []))"
proof (intro conjI impI)
  assume "findById st i = None"
  then show "getAppointmentById now st reqUser i = Failure 404 ''Appointment not found'' []"
    by (rule getAppointmentById_absent)
next
  assume "findById st i = None" and "s \<in> set statusEnum"
  then show "updateAppointmentStatus now st reqUser i s
               = (st, Failure 404 ''Appointment not found'' [])"
    by (rule mutate_absent(1))
next
  assume "findById st i = None"
  then show "cancelAppointment now st reqUser i = (st, Failure 404 ''Appointment not found'' [])"
    by (rule mutate_absent(2))
next
  assume "findById st i = Some a \<and> \<not> owns reqUser a" and "distinctIds (appointments st)"
  then show "getAppointmentById now st reqUser i = Failure 404 ''Appointment not found'' []"
    using getAppointmentById_hidden [of st i a reqUser now] by simp
next
  assume "findById st i = Some a \<and> \<not> owns reqUser a" and "s \<in> set statusEnum"
  then show "updateAppointmentStatus now st reqUser i s = (st, Failure 403 ''Access denied'' [])"
    using mutate_denied(1) [of st i a reqUser s now] by simp
next
  assume "findById st i = Some a \<and> \<not> owns reqUser a"
  then show "cancelAppointment now st reqUser i = (st, Failure 403 ''Access denied'' [])"
    using mutate_denied(2) [of st i a reqUser now] by simp
qed

text \<open>
  The sentence of the specification, as written, fails on the code: patient P2 cancelling or updating P1's appointment 0 is
  answered 403, and 404 for the unused id 7, so the two cases can be told apart.
\<close>

theorem denied_differs_from_absent:
  "findById (ward [visit 0 ''10:00'' ''pending'' 30]) 0 = Some (visit 0 ''10:00'' ''pending'' 30)
   \<and> \<not> owns p2 (visit 0 ''10:00'' ''pending'' 30)
   \<and> findById (ward [visit 0 ''10:00'' ''pending'' 30]) 7 = None
   \<and> snd (cancelAppointment (day2099 - hour) (ward [visit 0 ''10:00'' ''pending'' 30]) p2 0)
       = Failure 403 ''Access denied'' []
   \<and> snd (cancelAppointment (day2099 - hour) (ward [visit 0 ''10:00'' ''pending'' 30]) p2 7)
       = Failure 404 ''Appointment not found'' []
   \<and> snd (updateAppointmentStatus (day2099 - hour) (ward [visit 0 ''10:00'' ''pending'' 30]) p2 0
            ''confirmed'')
       = Failure 403 ''Access denied'' []
   \<and> snd (updateAppointmentStatus (day2099 - hour) (ward [visit 0 ''10:00'' ''pending'' 30]) p2 7
            ''confirmed'')
       = Failure 404 ''Appointment not found'' []"
  by code_simp

theorem out_of_scope_responses_witness:
  "findById (ward [visit 0 ''10:00'' ''pending'' 30]) 7 = None
   \<and> findById (ward [visit 0 ''10:00'' ''pending'' 30]) 0 = Some (visit 0 ''10:00'' ''pending'' 30)
   \<and> \<not> owns p2 (visit 0 ''10:00'' ''pending'' 30)
   \<and> distinctIds (appointments (ward [visit 0 ''10:00'' ''pending'' 30]))
   \<and> ''confirmed'' \<in> set statusEnum
   \<and> getAppointmentById (day2099 - hour) (ward [visit 0 ''10:00'' ''pending'' 30]) p2 7
       = Failure 404 ''Appointment not found'' []
   \<and> getAppointmentById (day2099 - hour) (ward [visit 0 ''10:00'' ''pending'' 30]) p2 0
       = Failure 404 ''Appointment not found'' []
   \<and> updateAppointmentStatus (day2099 - hour) (ward [visit 0 ''10:00'' ''pending'' 30]) p2 7 ''confirmed''
       = (ward [visit 0 ''10:00'' ''pending'' 30], Failure 404 ''Appointment not found'' [])
   \<and> updateAppointmentStatus (day2099 - hour) (ward [visit 0 ''10:00'' ''pending'' 30]) p2 0 ''confirmed''
       = (ward [visit 0 ''10:00'' ''pending'' 30], Failure 403 ''Access denied'' [])
   \<and> cancelAppointment (day2099 - hour) (ward [visit 0 ''10:00'' ''pending'' 30]) p2 7
       = (ward [visit 0 ''10:00'' ''pending'' 30], Failure 404 ''Appointment not found'' [])
   \<and> cancelAppointment (day2099 - hour) (ward [visit 0 ''10:00'' ''pending'' 30]) p2 0
       = (ward [visit 0 ''10:00'' ''pending'' 30], Failure 403 ''Access denied'' [])"
proof -
  let ?w = "ward [visit 0 ''10:00'' ''pending'' 30]"
  let ?a = "visit 0 ''10:00'' ''pending'' 30"
  have n: "findById ?w 7 = None" by (simp add: findById_def ward_def visit_def)
  have f: "findById ?w 0 = Some ?a" by (simp add: findById_def ward_def visit_def)
  have o: "\<not> owns p2 ?a" by (simp add: owns_def p2_def visit_def)
  have d: "distinctIds (appointments ?w)" by (simp add: distinctIds_def ward_def)
  have e: "''confirmed'' \<in> set statusEnum" by (simp add: statusEnum_def)
  from n e out_of_scope_responses [where st = ?w and i = 7 and now = "day2099 - hour"
      and reqUser = p2 and s = "''confirmed''" and a = ?a]
  have r1: "getAppointmentById (day2099 - hour) ?w p2 7 = Failure 404 ''Appointment not found'' []"
    "updateAppointmentStatus (day2099 - hour) ?w p2 7 ''confirmed''
       = (?w, Failure 404 ''Appointment not found'' [])"
    "cancelAppointment (day2099 - hour) ?w p2 7 = (?w, Failure 404 ''Appointment not found'' [])"
    by blast+
  from f o d e out_of_scope_responses [where st = ?w and i = 0 and now = "day2099 - hour"
      and reqUser = p2 and s = "''confirmed''" and a = ?a]
  have r2: "getAppointmentById (day2099 - hour) ?w p2 0 = Failure 404 ''Appointment not found'' []"
    "updateAppointmentStatus (day2099 - hour) ?w p2 0 ''confirmed''
       = (?w, Failure 403 ''Access denied'' [])"
    "cancelAppointment (day2099 - hour) ?w p2 0 = (?w, Failure 403 ''Access denied'' [])"
    by blast+
  from n f o d e r1 r2 show ?thesis by blast
qed

section \<open>C8: what a status change leaves alone\<close>

text \<open>
  C8. In a store whose documents have distinct ids, a successful status update or cancellation
  of appointment \<open>i\<close> leaves the users alone, keeps every stored appointment in its place with
  the same id, patient, doctor, date, time, duration, notes, symptoms, urgency flag and
  creation timestamp, and leaves every appointment other than \<open>i\<close> wholly unchanged. (Of
  appointment \<open>i\<close> only \<open>status\<close> and the schema's \<open>updatedAt\<close> can differ.)
\<close>

theorem status_change_frame:
  "distinctIds (appointments st)
   \<and> (updateAppointmentStatus now st reqUser i s = (st', r)
       \<or> cancelAppointment now st reqUser i = (st', r))
   \<and> isSuccess r \<longrightarrow>
     users st' = users st
     \<and> list_all2 (\<lambda>a a'. sameButStatus a a' \<and> (aid a \<noteq> i \<longrightarrow> a' = a))
          (appointments st) (appointments st')"
proof (intro impI)
  assume h: "distinctIds (appointments st)
   \<and> (updateAppointmentStatus now st reqUser i s = (st', r)
       \<or> cancelAppointment now st reqUser i = (st', r))
   \<and> isSuccess r"
  then have di: "distinctIds (appointments st)" and ok: "isSuccess r" by simp_all
  from h have "updateAppointmentStatus now st reqUser i s = (st', r)
       \<or> cancelAppointment now st reqUser i = (st', r)" by simp
  then obtain a d s' where f: "findById st i = Some a"
    and sv: "save now (appointments st) False (a\<lparr>status := s'\<rparr>) = Inr (appointments st', d)"
    and u: "users st' = users st"
    using updateAppointmentStatus_success [of now st reqUser i s st' r]
      cancelAppointment_success [of now st reqUser i st' r] ok
    by blast
  from frame_of_save [OF sv f [unfolded findById_def] di] u
  show "users st' = users st
     \<and> list_all2 (\<lambda>a a'. sameButStatus a a' \<and> (aid a \<noteq> i \<longrightarrow> a' = a))
          (appointments st) (appointments st')" by simp
qed


theorem status_change_frame_witness:
  "distinctIds (appointments (ward [visit 0 ''10:00'' ''pending'' 30, visit 1 ''11:00'' ''confirmed'' 45]))
   \<and> isSuccess (snd (cancelAppointment (day2099 - hour)
         (ward [visit 0 ''10:00'' ''pending'' 30, visit 1 ''11:00'' ''confirmed'' 45]) p1 0))
   \<and> list_all2 (\<lambda>a a'. sameButStatus a a' \<and> (aid a \<noteq> 0 \<longrightarrow> a' = a))
        (appointments (ward [visit 0 ''10:00'' ''pending'' 30, visit 1 ''11:00'' ''confirmed'' 45]))
        (appointments (fst (cancelAppointment (day2099 - hour)
           (ward [visit 0 ''10:00'' ''pending'' 30, visit 1 ''11:00'' ''confirmed'' 45]) p1 0)))
   \<and> map status (appointments (fst (cancelAppointment (day2099 - hour)
           (ward [visit 0 ''10:00'' ''pending'' 30, visit 1 ''11:00'' ''confirmed'' 45]) p1 0)))
       = [''cancelled'', ''confirmed'']"
proof -
  let ?w = "ward [visit 0 ''10:00'' ''pending'' 30, visit 1 ''11:00'' ''confirmed'' 45]"
  have d: "distinctIds (appointments ?w)" by code_simp
  have s: "isSuccess (snd (cancelAppointment (day2099 - hour) ?w p1 0))" by code_simp
  have m: "map status (appointments (fst (cancelAppointment (day2099 - hour) ?w p1 0)))
             = [''cancelled'', ''confirmed'']" by code_simp
  have p: "cancelAppointment (day2099 - hour) ?w p1 0
             = (fst (cancelAppointment (day2099 - hour) ?w p1 0),
                snd (cancelAppointment (day2099 - hour) ?w p1 0))" by simp
  from d s p status_change_frame [where st = ?w and now = "day2099 - hour" and reqUser = p1
      and i = 0 and st' = "fst (cancelAppointment (day2099 - hour) ?w p1 0)"
      and r = "snd (cancelAppointment (day2099 - hour) ?w p1 0)" and s = "''cancelled''"]
  have "list_all2 (\<lambda>a a'. sameButStatus a a' \<and> (aid a \<noteq> 0 \<longrightarrow> a' = a))
          (appointments ?w) (appointments (fst (cancelAppointment (day2099 - hour) ?w p1 0)))"
    by blast
  with d s m show ?thesis by blast
qed

section \<open>C9: the guard compares start times only\<close>

text \<open>
  C9. The conflict guard compares the time field by equality and never reads the duration.
  Two live appointments of the same doctor on the same date whose time fields differ, each
  valid by the schema and neither in conflict with a stored appointment, are both saved one
  after the other, whatever their durations: also when their intervals overlap, as 10:00 for
  60 minutes and 10:30 for 30 minutes do.
\<close>

theorem guard_ignores_duration:
  "doctorId a = doctorId b \<and> date a = date b \<and> time a \<noteq> time b
   \<and> status a \<noteq> ''cancelled'' \<and> status b \<noteq> ''cancelled''
   \<and> validateSchema now a = [] \<and> validateSchema now' b = []
   \<and> \<not> (\<exists>x \<in> set apps. slotTaken a x) \<and> \<not> (\<exists>x \<in> set apps. slotTaken b x) \<longrightarrow>
     (\<exists>a' b'. save now apps True a = Inr (apps @ [a'], a')
        \<and> save now' (apps @ [a']) True b = Inr (apps @ [a', b'], b')
        \<and> time a' = time a \<and> duration a' = duration a \<and> status a' = status a
        \<and> time b' = time b \<and> duration b' = duration b \<and> status b' = status b
        \<and> date a' = date b' \<and> doctorId a' = doctorId b'
        \<and> overlaps a' b' = overlaps a b)"
proof (intro impI)
  assume h: "doctorId a = doctorId b \<and> date a = date b \<and> time a \<noteq> time b
   \<and> status a \<noteq> ''cancelled'' \<and> status b \<noteq> ''cancelled''
   \<and> validateSchema now a = [] \<and> validateSchema now' b = []
   \<and> \<not> (\<exists>x \<in> set apps. slotTaken a x) \<and> \<not> (\<exists>x \<in> set apps. slotTaken b x)"
  let ?a = "a\<lparr>createdAt := now, updatedAt := now\<rparr>"
  let ?b = "b\<lparr>createdAt := now', updatedAt := now'\<rparr>"
  from h have s1: "save now apps True a = Inr (apps @ [?a], ?a)"
    by (intro save_new_ok) simp_all
  from h have "\<not> slotTaken b ?a" by (simp add: slotTaken_def)
  with h have "\<not> (\<exists>x \<in> set (apps @ [?a]). slotTaken b x)" by auto
  with h have s2: "save now' (apps @ [?a]) True b = Inr ((apps @ [?a]) @ [?b], ?b)"
    by (intro save_new_ok) simp_all
  from s1 s2 h
  have "save now apps True a = Inr (apps @ [?a], ?a)
        \<and> save now' (apps @ [?a]) True b = Inr (apps @ [?a, ?b], ?b)
        \<and> time ?a = time a \<and> duration ?a = duration a \<and> status ?a = status a
        \<and> time ?b = time b \<and> duration ?b = duration b \<and> status ?b = status b
        \<and> date ?a = date ?b \<and> doctorId ?a = doctorId ?b
        \<and> overlaps ?a ?b = overlaps a b"
    by (simp add: overlaps_stamp)
  then show "\<exists>a' b'. save now apps True a = Inr (apps @ [a'], a')
        \<and> save now' (apps @ [a']) True b = Inr (apps @ [a', b'], b')
        \<and> time a' = time a \<and> duration a' = duration a \<and> status a' = status a
        \<and> time b' = time b \<and> duration b' = duration b \<and> status b' = status b
        \<and> date a' = date b' \<and> doctorId a' = doctorId b'
        \<and> overlaps a' b' = overlaps a b"
    by blast
qed

theorem guard_ignores_duration_witness:
  "overlaps (visit 0 ''10:00'' ''pending'' 60) (visit 1 ''10:30'' ''pending'' 30)
   \<and> validateSchema (day2099 - hour) (visit 0 ''10:00'' ''pending'' 60) = []
   \<and> validateSchema (day2099 - hour) (visit 1 ''10:30'' ''pending'' 30) = []
   \<and> (\<exists>a' b'. save (day2099 - hour) [] True (visit 0 ''10:00'' ''pending'' 60) = Inr ([a'], a')
         \<and> save (day2099 - hour) [a'] True (visit 1 ''10:30'' ''pending'' 30) = Inr ([a', b'], b')
         \<and> status a' = ''pending'' \<and> status b' = ''pending'' \<and> overlaps a' b')
   \<and> map (\<lambda>x. (time x, duration x, status x))
        (appointments (run clinic
           [(day2099 - 24 * hour, Token 2, PostAppointment (booking ''10:00'' (Some 60))),
            (day2099 - 23 * hour, Token 3, PostAppointment (booking ''10:30'' (Some 30)))]))
       = [(''10:00'', 60, ''pending''), (''10:30'', 30, ''pending'')]"
proof -
  let ?a = "visit 0 ''10:00'' ''pending'' 60"
  let ?b = "visit 1 ''10:30'' ''pending'' 30"
  have o: "overlaps ?a ?b" by code_simp
  have v: "validateSchema (day2099 - hour) ?a = []" "validateSchema (day2099 - hour) ?b = []"
    by code_simp+
  have p: "doctorId ?a = doctorId ?b \<and> date ?a = date ?b \<and> time ?a \<noteq> time ?b
     \<and> status ?a \<noteq> ''cancelled'' \<and> status ?b \<noteq> ''cancelled''
     \<and> validateSchema (day2099 - hour) ?a = [] \<and> validateSchema (day2099 - hour) ?b = []
     \<and> \<not> (\<exists>x \<in> set []. slotTaken ?a x) \<and> \<not> (\<exists>x \<in> set []. slotTaken ?b x)"
    using v by (simp add: visit_def)
  from guard_ignores_duration [where a = ?a and b = ?b and now = "day2099 - hour"
      and now' = "day2099 - hour" and apps = "[]", THEN mp, OF p]
  obtain a' b' where "save (day2099 - hour) [] True ?a = Inr ([] @ [a'], a')"
    "save (day2099 - hour) ([] @ [a']) True ?b = Inr ([] @ [a', b'], b')"
    "status a' = status ?a" "status b' = status ?b" "overlaps a' b' = overlaps ?a ?b"
    by blast
  with o have s: "\<exists>a' b'. save (day2099 - hour) [] True ?a = Inr ([a'], a')
         \<and> save (day2099 - hour) [a'] True ?b = Inr ([a', b'], b')
         \<and> status a' = ''pending'' \<and> status b' = ''pending'' \<and> overlaps a' b'"
    by (auto simp: visit_def)
  have r: "map (\<lambda>x. (time x, duration x, status x))
        (appointments (run clinic
           [(day2099 - 24 * hour, Token 2, PostAppointment (booking ''10:00'' (Some 60))),
            (day2099 - 23 * hour, Token 3, PostAppointment (booking ''10:30'' (Some 30)))]))
       = [(''10:00'', 60, ''pending''), (''10:30'', 30, ''pending'')]"
    by code_simp
  from o v s r show ?thesis by blast
qed

section \<open>C10: an admin and their own account\<close>

text \<open>
  C10. A status update whose target is the caller's own id never changes the store and never
  succeeds, whatever \<open>isActive\<close> is asked for. For an admin whose user record exists, as it
  does for every caller the route has authenticated, the answer is
  400 "Cannot deactivate your own account", for \<open>isActive = true\<close> as for \<open>isActive = false\<close>:
  an admin can neither deactivate nor activate their own account through this operation.
\<close>

theorem own_account_locked:
  "(userId = u_id reqUser \<longrightarrow>
      fst (updateUserStatus st reqUser userId isActive) = st
      \<and> \<not> isSuccess (snd (updateUserStatus st reqUser userId isActive)))
   \<and> (userId = u_id reqUser \<and> u_role reqUser = Admin
        \<and> (\<exists>u \<in> set (users st). u_id u = userId) \<longrightarrow>
      updateUserStatus st reqUser userId isActive
        = (st, Failure 400 ''Cannot deactivate your own account'' []))
   \<and> (authenticateToken st (Token userId) = Inr reqUser \<and> u_role reqUser = Admin \<longrightarrow>
      handle now st (Token userId) (PatchUserStatus userId isActive)
        = (st, Failure 400 ''Cannot deactivate your own account'' []))"
proof (intro conjI impI)
  assume "userId = u_id reqUser"
  then show "fst (updateUserStatus st reqUser userId isActive) = st"
    and "\<not> isSuccess (snd (updateUserStatus st reqUser userId isActive))"
    by (rule updateUserStatus_self)+
next
  assume "userId = u_id reqUser \<and> u_role reqUser = Admin
        \<and> (\<exists>u \<in> set (users st). u_id u = userId)"
  then show "updateUserStatus st reqUser userId isActive
        = (st, Failure 400 ''Cannot deactivate your own account'' [])"
    using updateUserStatus_self_admin [of userId reqUser st isActive] by blast
next
  assume h: "authenticateToken st (Token userId) = Inr reqUser \<and> u_role reqUser = Admin"
  with authenticateToken_user [of st userId reqUser]
  have u: "u_id reqUser = userId" "reqUser \<in> set (users st)" by simp_all
  then have "updateUserStatus st reqUser userId isActive
        = (st, Failure 400 ''Cannot deactivate your own account'' [])"
    using h updateUserStatus_self_admin [of userId reqUser st isActive] by blast
  with h show "handle now st (Token userId) (PatchUserStatus userId isActive)
        = (st, Failure 400 ''Cannot deactivate your own account'' [])"
    by (simp add: handle_def authorizeRole_def)
qed

theorem own_account_locked_witness:
  "u_role root = Admin \<and> (\<exists>u \<in> set (users clinic). u_id u = u_id root)
   \<and> authenticateToken clinic (Token 4) = Inr root
   \<and> updateUserStatus clinic root (u_id root) False
       = (clinic, Failure 400 ''Cannot deactivate your own account'' [])
   \<and> updateUserStatus clinic root (u_id root) True
       = (clinic, Failure 400 ''Cannot deactivate your own account'' [])
   \<and> handle 0 clinic (Token 4) (PatchUserStatus 4 True)
       = (clinic, Failure 400 ''Cannot deactivate your own account'' [])
   \<and> fst (updateUserStatus clinic p1 (u_id p1) True) = clinic"
proof -
  have a: "u_role root = Admin" by (simp add: root_def)
  have e: "\<exists>u \<in> set (users clinic). u_id u = u_id root" by (simp add: clinic_def)
  have t: "authenticateToken clinic (Token 4) = Inr root" by code_simp
  from a e own_account_locked [where userId = "u_id root" and reqUser = root and st = clinic
      and isActive = False]
  have r1: "updateUserStatus clinic root (u_id root) False
       = (clinic, Failure 400 ''Cannot deactivate your own account'' [])" by blast
  from a e own_account_locked [where userId = "u_id root" and reqUser = root and st = clinic
      and isActive = True]
  have r2: "updateUserStatus clinic root (u_id root) True
       = (clinic, Failure 400 ''Cannot deactivate your own account'' [])" by blast
  from a t own_account_locked [where userId = 4 and reqUser = root and st = clinic
      and isActive = True and now = 0]
  have r3: "handle 0 clinic (Token 4) (PatchUserStatus 4 True)
       = (clinic, Failure 400 ''Cannot deactivate your own account'' [])" by blast
  from own_account_locked [where userId = "u_id p1" and reqUser = p1 and st = clinic
      and isActive = True]
  have r4: "fst (updateUserStatus clinic p1 (u_id p1) True) = clinic" by blast
  from a e t r1 r2 r3 r4 show ?thesis by blast
qed

end
